theory Spec2Isabelle
  imports Main "HOL-Library.AList"
begin

section \<open>Python values\<close>

text \<open>
  The game engine of \<^verbatim>\<open>backend/services/game_service.py\<close> keeps the state of a session as
  a JSON object in a text column (\<^verbatim>\<open>GameSession.state\<close>) and reads it back as a Python
  dict. The embedding keeps the dict: a Python \<^verbatim>\<open>str\<close> is the list of its code points, a
  JSON value is a \<open>json\<close>, a dict is an association list in insertion order, read with
  \<open>map_of\<close> and written with \<open>AList.update\<close> (an existing key keeps its place, a new one
  goes last, as in Python). Keys are the ASCII literals of the source, so they are
  \<open>string\<close>s. JSON numbers are integers: the engine never writes a float.
\<close>

type_synonym pystr = "nat list"

datatype json =
    JNull
  | JBool bool
  | JInt int
  | JStr pystr
  | JList "json list"
  | JObj "(string \<times> json) list"

type_synonym pydict = "(string \<times> json) list"

text \<open>
  A Python str may hold a lone surrogate (a JSON request body can carry one), and
  \<^verbatim>\<open>json.dumps(..., ensure_ascii=False)\<close> writes it out as it is; the text then cannot be
  encoded for the database, and \<^verbatim>\<open>db.commit()\<close> raises \<^verbatim>\<open>UnicodeEncodeError\<close>. A value is
  \<open>encodable\<close> when every character of every str in it is a Unicode scalar value.
\<close>

definition scalar :: "nat \<Rightarrow> bool" where
  "scalar c = (c < 55296 \<or> (57343 < c \<and> c < 1114112))"

fun encodable :: "json \<Rightarrow> bool" where
  "encodable (JStr s) = list_all scalar s"
| "encodable (JList xs) = list_all encodable xs"
| "encodable (JObj d) = list_all (\<lambda>kv. encodable (snd kv)) d"
| "encodable v = True"

definition storable :: "pydict \<Rightarrow> bool" where
  \<comment> \<open>the JSON text of the dict can be written to the database\<close>
  "storable d = encodable (JObj d)"

text \<open>
  The exceptions of Python and of the database driver that the engine can raise.
  \<open>Unmodelled\<close> stands for the few places where Python's duck typing would carry on with
  a field of a type no state of the engine has (a list as \<^verbatim>\<open>current_word\<close>, text as a
  score); the embedding stops there.
\<close>

datatype pyerr =
    KeyError | IndexError | TypeError | AttributeError
  | IntegrityError | UnicodeEncodeError | OverflowError | Unmodelled

definition ascii :: "string \<Rightarrow> pystr" where
  "ascii s = map of_char s"

definition dict_get :: "pydict \<Rightarrow> string \<Rightarrow> json \<Rightarrow> json" where
  \<comment> \<open>\<^verbatim>\<open>d.get(k, default)\<close>\<close>
  "dict_get d k dflt = (case map_of d k of None \<Rightarrow> dflt | Some v \<Rightarrow> v)"

definition dict_item :: "pydict \<Rightarrow> string \<Rightarrow> pyerr + json" where
  \<comment> \<open>\<^verbatim>\<open>d[k]\<close>\<close>
  "dict_item d k = (case map_of d k of None \<Rightarrow> Inl KeyError | Some v \<Rightarrow> Inr v)"

definition dict_set :: "pydict \<Rightarrow> string \<Rightarrow> json \<Rightarrow> pydict" where
  \<comment> \<open>\<^verbatim>\<open>d[k] = v\<close>\<close>
  "dict_set d k v = AList.update k v d"

definition has_key :: "string \<Rightarrow> pydict \<Rightarrow> bool" where
  \<comment> \<open>\<^verbatim>\<open>k in d\<close>\<close>
  "has_key k d = (map_of d k \<noteq> None)"

fun truthy :: "json \<Rightarrow> bool" where
  "truthy JNull = False"
| "truthy (JBool b) = b"
| "truthy (JInt i) = (i \<noteq> 0)"
| "truthy (JStr s) = (s \<noteq> [])"
| "truthy (JList xs) = (xs \<noteq> [])"
| "truthy (JObj d) = (d \<noteq> [])"

fun as_num :: "json \<Rightarrow> pyerr + int" where
  \<comment> \<open>the operand of an arithmetic operation or of an ordering against an int;
      a Python bool is an int\<close>
  "as_num (JInt i) = Inr i"
| "as_num (JBool b) = Inr (if b then 1 else 0)"
| "as_num v = Inl TypeError"

fun py_len :: "json \<Rightarrow> pyerr + int" where
  "py_len (JList xs) = Inr (int (length xs))"
| "py_len (JStr s) = Inr (int (length s))"
| "py_len (JObj d) = Inr (int (length d))"
| "py_len v = Inl TypeError"

fun append_target :: "json \<Rightarrow> pyerr + json list" where
  \<comment> \<open>\<^verbatim>\<open>v.append\<close>: only a list has the method; the argument is evaluated after the
      method is found, and the list then grows by it in place\<close>
  "append_target (JList xs) = Inr xs"
| "append_target v = Inl AttributeError"

fun starts_with :: "pystr \<Rightarrow> pystr \<Rightarrow> bool" where
  "starts_with s [] = True"
| "starts_with [] (c # w) = False"
| "starts_with (d # s) (c # w) = (d = c \<and> starts_with s w)"

fun str_contains :: "pystr \<Rightarrow> pystr \<Rightarrow> bool" where
  "str_contains [] w = (w = [])"
| "str_contains (c # s) w = (starts_with (c # s) w \<or> str_contains s w)"

fun py_in :: "pystr \<Rightarrow> json \<Rightarrow> pyerr + bool" where
  \<comment> \<open>\<^verbatim>\<open>word in v\<close> for a str \<^verbatim>\<open>word\<close>: an element of a list, a substring of a str,
      a key of a dict\<close>
  "py_in w (JList xs) = Inr (JStr w \<in> set xs)"
| "py_in w (JStr s) = Inr (str_contains s w)"
| "py_in w (JObj d) = Inr (w \<in> set (map (\<lambda>kv. ascii (fst kv)) d))"
| "py_in w v = Inl TypeError"

definition py_index :: "'a list \<Rightarrow> int \<Rightarrow> pyerr + 'a" where
  \<comment> \<open>\<^verbatim>\<open>xs[i]\<close>; the indices \<open>-len(xs) .. -1\<close> count back from the end\<close>
  "py_index xs i =
     (if 0 \<le> i \<and> i < int (length xs) then Inr (xs ! nat i)
      else if i < 0 \<and> - int (length xs) \<le> i then Inr (xs ! nat (int (length xs) + i))
      else Inl IndexError)"

fun py_getitem :: "json \<Rightarrow> int \<Rightarrow> pyerr + json" where
  \<comment> \<open>\<^verbatim>\<open>v[i]\<close> for an int \<^verbatim>\<open>i\<close>\<close>
  "py_getitem (JList xs) i = py_index xs i"
| "py_getitem (JStr s) i = (case py_index s i of Inl e \<Rightarrow> Inl e | Inr c \<Rightarrow> Inr (JStr [c]))"
| "py_getitem (JObj d) i = Inl KeyError"
| "py_getitem v i = Inl TypeError"

fun py_getkey :: "json \<Rightarrow> string \<Rightarrow> pyerr + json" where
  \<comment> \<open>\<^verbatim>\<open>v["k"]\<close>\<close>
  "py_getkey (JObj d) k = dict_item d k"
| "py_getkey v k = Inl TypeError"

fun bind_err :: "pyerr + 'a \<Rightarrow> ('a \<Rightarrow> (pyerr + 'b) \<times> 'c option) \<Rightarrow> (pyerr + 'b) \<times> 'c option" where
  \<comment> \<open>a move returns its result and, once \<^verbatim>\<open>set_state\<close> and \<^verbatim>\<open>commit\<close> have run, the
      state they stored; an exception before them stores nothing\<close>
  "bind_err (Inl e) f = (Inl e, None)"
| "bind_err (Inr v) f = f v"

section \<open>The tables\<close>

text \<open>
  \<^verbatim>\<open>models/game.py\<close>: the rows of \<^verbatim>\<open>game_sessions\<close> and \<^verbatim>\<open>game_records\<close>, without their
  timestamps. \<^verbatim>\<open>id\<close> is the primary key of each table; the nullable columns of a record
  are options. The \<^verbatim>\<open>companions\<close> table that \<^verbatim>\<open>companion_id\<close> refers to is outside the
  engine, which never looks a companion up. The database is the two tables, each a list
  of rows in insertion order, and every operation returns it with its result.

  The \<^verbatim>\<open>state\<close> column holds the JSON text of a dict. Only encodable text gets into the
  table, so the column has the type \<open>stored\<close> of the storable dicts; \<^verbatim>\<open>get_state\<close> parses
  the text back (\<^verbatim>\<open>json.loads(json.dumps(d))\<close> is \<open>d\<close> on these values) and \<^verbatim>\<open>set_state\<close>
  followed by \<^verbatim>\<open>db.commit()\<close> is \<open>commit_state\<close>, which raises when the new dict is not
  storable and then leaves the row as it was.
\<close>

typedef stored = "{d :: pydict. storable d}"
  by (rule exI [of _ "[]"]) (simp add: storable_def)

setup_lifting type_definition_stored

text \<open>The text of a storable dict; the empty dict stands in where there is no such text.\<close>

lift_definition to_stored :: "pydict \<Rightarrow> stored" is
  "\<lambda>d. if storable d then d else []"
  by (simp add: storable_def)

record game_session =
  s_id :: string
  s_game_id :: string
  s_companion_id :: string
  s_state :: stored
  s_is_active :: bool

record game_record =
  r_id :: string
  r_game_id :: string
  r_companion_id :: string
  r_session_id :: "string option"
  r_user_score :: "int option"
  r_companion_score :: "int option"
  r_rounds_played :: "int option"
  r_winner :: "string option"

record database =
  sessions :: "game_session list"
  records :: "game_record list"

definition get_session :: "database \<Rightarrow> string \<Rightarrow> game_session option" where
  "get_session db session_id = find (\<lambda>s. s_id s = session_id) (sessions db)"

definition get_active_session :: "database \<Rightarrow> string \<Rightarrow> string \<Rightarrow> game_session option" where
  "get_active_session db companion_id game_id =
     find (\<lambda>s. s_companion_id s = companion_id \<and> s_game_id s = game_id \<and> s_is_active s)
       (sessions db)"

definition get_state :: "game_session \<Rightarrow> pydict" where
  "get_state session = Rep_stored (s_state session)"

definition set_state :: "game_session \<Rightarrow> pydict \<Rightarrow> game_session" where
  \<comment> \<open>the row with the text of a storable dict as its state; \<open>commit_state\<close> is its
      only caller and refuses every other dict\<close>
  "set_state session state = session\<lparr>s_state := to_stored state\<rparr>"

definition commit_session :: "database \<Rightarrow> game_session \<Rightarrow> database" where
  \<comment> \<open>the row with its primary key is rewritten; a row holds a \<open>stored\<close> state, so this
      write has nothing left to refuse\<close>
  "commit_session db s' =
     db\<lparr>sessions := map (\<lambda>s. if s_id s = s_id s' then s' else s) (sessions db)\<rparr>"

definition commit_state :: "database \<Rightarrow> game_session \<Rightarrow> pydict \<Rightarrow> pyerr + database" where
  \<comment> \<open>\<^verbatim>\<open>session.set_state(state); db.commit()\<close>\<close>
  "commit_state db session state =
     (if storable state then Inr (commit_session db (set_state session state))
      else Inl UnicodeEncodeError)"

section \<open>Word chain\<close>

definition msg_invalid_session :: pystr where
  "msg_invalid_session = ascii ''Invalid session''"

definition msg_word_used :: pystr where
  "msg_word_used = [36825, 20010, 35789, 24050, 32463, 29992, 36807, 20102]"

definition msg_need_start :: "pystr \<Rightarrow> pystr" where
  "msg_need_start c = [38656, 35201, 20197, 39] @ c @ [39, 24320, 22836]"

definition invalid_session :: pydict where
  "invalid_session = [(''error'', JStr msg_invalid_session)]"

fun chain_mismatch :: "pystr \<Rightarrow> json \<Rightarrow> pyerr + pystr option" where
  \<comment> \<open>\<^verbatim>\<open>word[0] != current_word[-1]\<close> for a truthy \<^verbatim>\<open>current_word\<close>: the last character
      when it differs from the first of \<^verbatim>\<open>word\<close>\<close>
  "chain_mismatch [] v = Inl IndexError"
| "chain_mismatch (c # w) (JStr cw) = (if cw = [] then Inl IndexError
     else if c \<noteq> last cw then Inr (Some [last cw]) else Inr None)"
| "chain_mismatch (c # w) (JList xs) = Inl Unmodelled"
| "chain_mismatch (c # w) (JObj d) = Inl KeyError"
| "chain_mismatch (c # w) v = Inl TypeError"

definition word_chain_move :: "pydict \<Rightarrow> pystr \<Rightarrow> (pyerr + pydict) \<times> pydict option" where
  \<comment> \<open>\<^verbatim>\<open>play_word_chain\<close>, from \<^verbatim>\<open>state = session.get_state()\<close> on\<close>
  "word_chain_move state word =
     bind_err (py_in word (dict_get state ''words_used'' (JList []))) (\<lambda>used.
     if used then (Inr [(''error'', JStr msg_word_used), (''valid'', JBool False)], None)
     else
       let current_word = dict_get state ''current_word'' JNull in
       bind_err (if truthy current_word then chain_mismatch word current_word else Inr None)
         (\<lambda>mismatch.
       case mismatch of
         Some c \<Rightarrow> (Inr [(''error'', JStr (msg_need_start c)), (''valid'', JBool False)], None)
       | None \<Rightarrow>
           bind_err (dict_item state ''words_used'') (\<lambda>words_used.
           bind_err (append_target words_used) (\<lambda>ws.
           let state1 = dict_set state ''words_used'' (JList (ws @ [JStr word]));
               state2 = dict_set state1 ''current_word'' (JStr word)
           in
           bind_err (as_num (dict_get state2 ''user_score'' (JInt 0))) (\<lambda>user_score.
           let state3 = dict_set state2 ''user_score'' (JInt (user_score + 1)) in
           bind_err (as_num (dict_get state3 ''rounds'' (JInt 0))) (\<lambda>rounds.
           let state4 = dict_set state3 ''rounds'' (JInt (rounds + 1));
               state5 = dict_set state4 ''turn'' (JStr (ascii ''companion''))
           in (Inr [(''valid'', JBool True), (''word'', JStr word), (''state'', JObj state5)],
               Some state5)))))))"

definition play :: "(pydict \<Rightarrow> 'a \<Rightarrow> (pyerr + pydict) \<times> pydict option) \<Rightarrow> string \<Rightarrow>
    database \<Rightarrow> string \<Rightarrow> 'a \<Rightarrow> (pyerr + pydict) \<times> database" where
  \<comment> \<open>the frame the three \<^verbatim>\<open>play_*\<close> methods share: load the session, refuse another
      game's, run the move, store the state the move hands back; when the commit raises,
      nothing is stored and the result is never built\<close>
  "play move game db session_id action =
     (case get_session db session_id of
        None \<Rightarrow> (Inr invalid_session, db)
      | Some session \<Rightarrow>
          if s_game_id session \<noteq> game then (Inr invalid_session, db)
          else (case move (get_state session) action of
                  (result, None) \<Rightarrow> (result, db)
                | (result, Some state') \<Rightarrow>
                    (case commit_state db session state' of
                       Inl e \<Rightarrow> (Inl e, db)
                     | Inr db' \<Rightarrow> (result, db'))))"

definition play_word_chain :: "database \<Rightarrow> string \<Rightarrow> pystr \<Rightarrow> (pyerr + pydict) \<times> database" where
  "play_word_chain = play word_chain_move ''word_chain''"

section \<open>Trivia\<close>

definition msg_no_more_questions :: pystr where
  "msg_no_more_questions = ascii ''No more questions''"

definition trivia_move :: "pydict \<Rightarrow> pystr \<Rightarrow> (pyerr + pydict) \<times> pydict option" where
  \<comment> \<open>\<^verbatim>\<open>play_trivia\<close>, from \<^verbatim>\<open>state = session.get_state()\<close> on\<close>
  "trivia_move state answer =
     (let questions = dict_get state ''questions'' (JList []);
          current_index = dict_get state ''current_index'' (JInt 0)
      in
      bind_err (py_len questions) (\<lambda>n.
      bind_err (as_num current_index) (\<lambda>i.
      if i \<ge> n then (Inr [(''error'', JStr msg_no_more_questions), (''finished'', JBool True)], None)
      else
        bind_err (py_getitem questions i) (\<lambda>current_question.
        bind_err (py_getkey current_question ''answer'') (\<lambda>correct_answer.
        let correct = (correct_answer = JStr answer) in
        bind_err (if correct
                  then (case as_num (dict_get state ''user_score'' (JInt 0)) of
                          Inl e \<Rightarrow> Inl e
                        | Inr user_score \<Rightarrow> Inr (dict_set state ''user_score'' (JInt (user_score + 1))))
                  else Inr state) (\<lambda>state1.
        bind_err (dict_item state1 ''answers'') (\<lambda>answers.
        bind_err (append_target answers) (\<lambda>as.
        bind_err (py_getkey current_question ''question'') (\<lambda>question.
        let entry = JObj [(''question'', question), (''user_answer'', JStr answer),
                          (''correct_answer'', correct_answer), (''correct'', JBool correct)];
            state2 = dict_set state1 ''answers'' (JList (as @ [entry]));
            state3 = dict_set state2 ''current_index'' (JInt (i + 1));
            finished = (i + 1 \<ge> n)
        in (Inr [(''correct'', JBool correct), (''correct_answer'', correct_answer),
                 (''finished'', JBool finished), (''state'', JObj state3)],
            Some state3))))))))))"

definition play_trivia :: "database \<Rightarrow> string \<Rightarrow> pystr \<Rightarrow> (pyerr + pydict) \<times> database" where
  "play_trivia = play trivia_move ''trivia''"

section \<open>Guess the number\<close>

definition msg_game_finished :: pystr where
  "msg_game_finished = ascii ''Game already finished''"

definition int_eq :: "int \<Rightarrow> json \<Rightarrow> bool" where
  \<comment> \<open>\<^verbatim>\<open>guess == v\<close> for an int \<^verbatim>\<open>guess\<close>\<close>
  "int_eq g v = (case v of JInt t \<Rightarrow> g = t | JBool b \<Rightarrow> g = (if b then 1 else 0) | _ \<Rightarrow> False)"

definition py_max :: "json \<Rightarrow> int \<Rightarrow> pyerr + json" where
  \<comment> \<open>\<^verbatim>\<open>max(a, b)\<close>: \<^verbatim>\<open>b\<close> when \<^verbatim>\<open>b > a\<close>, else \<^verbatim>\<open>a\<close> as it is\<close>
  "py_max a b = (case as_num a of Inl e \<Rightarrow> Inl e | Inr x \<Rightarrow> Inr (if b > x then JInt b else a))"

definition py_min :: "json \<Rightarrow> int \<Rightarrow> pyerr + json" where
  \<comment> \<open>\<^verbatim>\<open>min(a, b)\<close>: \<^verbatim>\<open>b\<close> when \<^verbatim>\<open>b < a\<close>, else \<^verbatim>\<open>a\<close> as it is\<close>
  "py_min a b = (case as_num a of Inl e \<Rightarrow> Inl e | Inr x \<Rightarrow> Inr (if b < x then JInt b else a))"

definition len_ge :: "json \<Rightarrow> json \<Rightarrow> pyerr + bool" where
  \<comment> \<open>\<^verbatim>\<open>len(guesses) >= max_guesses\<close>\<close>
  "len_ge guesses max_guesses =
     (case py_len guesses of
        Inl e \<Rightarrow> Inl e
      | Inr n \<Rightarrow> (case as_num max_guesses of Inl e \<Rightarrow> Inl e | Inr m \<Rightarrow> Inr (n \<ge> m)))"

definition guess_step :: "pydict \<Rightarrow> int \<Rightarrow> json \<Rightarrow> json \<Rightarrow> json \<Rightarrow> pyerr + (pydict \<times> pystr)" where
  \<comment> \<open>the \<^verbatim>\<open>if guess == target ... elif ... else\<close> of \<^verbatim>\<open>play_guess_number\<close>: the state and
      the hint\<close>
  "guess_step state guess target guesses max_guesses =
     (if int_eq guess target then
        (case as_num max_guesses of
           Inl e \<Rightarrow> Inl e
         | Inr m \<Rightarrow>
            (case py_len guesses of
               Inl e \<Rightarrow> Inl e
             | Inr n \<Rightarrow>
                 Inr (dict_set (dict_set state ''won'' (JBool True)) ''user_score'' (JInt (m - n + 1)),
                      ascii ''correct'')))
      else
        (case as_num target of
           Inl e \<Rightarrow> Inl e
         | Inr t \<Rightarrow>
             if guess < t then
               (case py_max (dict_get state ''min_range'' (JInt 1)) (guess + 1) of
                  Inl e \<Rightarrow> Inl e
                | Inr v \<Rightarrow> Inr (dict_set state ''min_range'' v, ascii ''higher''))
             else
               (case py_min (dict_get state ''max_range'' (JInt 100)) (guess - 1) of
                  Inl e \<Rightarrow> Inl e
                | Inr v \<Rightarrow> Inr (dict_set state ''max_range'' v, ascii ''lower''))))"

definition guess_result :: "pydict \<Rightarrow> int \<Rightarrow> pystr \<Rightarrow> json \<Rightarrow> json \<Rightarrow> json \<Rightarrow> pyerr + pydict" where
  \<comment> \<open>what \<^verbatim>\<open>play_guess_number\<close> computes after \<^verbatim>\<open>db.commit()\<close>\<close>
  "guess_result state guess hint target guesses max_guesses =
     (case dict_item state ''won'' of
        Inl e \<Rightarrow> Inl e
      | Inr won \<Rightarrow>
         (case (if truthy won then Inr won
                else (case len_ge guesses max_guesses of Inl e \<Rightarrow> Inl e | Inr b \<Rightarrow> Inr (JBool b))) of
            Inl e \<Rightarrow> Inl e
          | Inr finished \<Rightarrow>
              Inr [(''guess'', JInt guess), (''hint'', JStr hint), (''finished'', finished),
                   (''won'', won), (''target'', if truthy finished then target else JNull),
                   (''state'', JObj state)]))"

definition guess_number_move :: "pydict \<Rightarrow> int \<Rightarrow> (pyerr + pydict) \<times> pydict option" where
  \<comment> \<open>\<^verbatim>\<open>play_guess_number\<close>, from \<^verbatim>\<open>state = session.get_state()\<close> on\<close>
  "guess_number_move state guess =
     (let target = dict_get state ''target'' JNull;
          guesses = dict_get state ''guesses'' (JList []);
          max_guesses = dict_get state ''max_guesses'' (JInt 7)
      in
      bind_err (if truthy (dict_get state ''won'' JNull) then Inr True
                else len_ge guesses max_guesses) (\<lambda>over.
      if over then (Inr [(''error'', JStr msg_game_finished), (''finished'', JBool True)], None)
      else
        bind_err (append_target guesses) (\<lambda>gs.
        let guesses' = JList (gs @ [JInt guess]);
            state1 = dict_set state ''guesses'' guesses'
        in
        bind_err (guess_step state1 guess target guesses' max_guesses) (\<lambda>(state2, hint).
        (guess_result state2 guess hint target guesses' max_guesses, Some state2)))))"

definition play_guess_number :: "database \<Rightarrow> string \<Rightarrow> int \<Rightarrow> (pyerr + pydict) \<times> database" where
  "play_guess_number = play guess_number_move ''guess_number''"

section \<open>Sessions\<close>

definition TRIVIA_QUESTIONS :: "json list" where
  "TRIVIA_QUESTIONS =
    [JObj [(''question'', JStr [22320, 29699, 19978, 26368, 22823, 30340, 28023, 27915, 26159, 20160, 20040, 65311]),
           (''answer'', JStr [22826, 24179, 27915]),
           (''options'', JList [JStr [22826, 24179, 27915], JStr [22823, 35199, 27915],
                               JStr [21360, 24230, 27915], JStr [21271, 20912, 27915]])],
     JObj [(''question'', JStr [20809, 30340, 36895, 24230, 22823, 32422, 26159, 22810, 23569, 65311]),
           (''answer'', JStr [51, 48, 19975, 20844, 37324, 47, 31186]),
           (''options'', JList [JStr [51, 48, 19975, 20844, 37324, 47, 31186],
                               JStr [51, 19975, 20844, 37324, 47, 31186],
                               JStr [51, 48, 48, 19975, 20844, 37324, 47, 31186],
                               JStr [51, 48, 48, 48, 20844, 37324, 47, 31186]])],
     JObj [(''question'', JStr [20013, 22269, 26368, 38271, 30340, 27827, 27969, 26159, 20160, 20040, 65311]),
           (''answer'', JStr [38271, 27743]),
           (''options'', JList [JStr [40644, 27827], JStr [38271, 27743],
                               JStr [29664, 27743], JStr [28142, 27827]])],
     JObj [(''question'', JStr [19968, 24180, 26377, 22810, 23569, 22825, 65311]),
           (''answer'', JStr [51, 54, 53, 22825]),
           (''options'', JList [JStr [51, 54, 48, 22825], JStr [51, 54, 53, 22825],
                               JStr [51, 54, 54, 22825], JStr [51, 54, 52, 22825]])],
     JObj [(''question'', JStr [27700, 30340, 21270, 23398, 24335, 26159, 20160, 20040, 65311]),
           (''answer'', JStr [72, 50, 79]),
           (''options'', JList [JStr [72, 50, 79], JStr [67, 79, 50], JStr [79, 50],
                               JStr [78, 97, 67, 108]])]]"

text \<open>
  \<^verbatim>\<open>_get_initial_state\<close> draws from \<^verbatim>\<open>random\<close>; the draws are arguments here:
  \<open>sample\<close> is what \<^verbatim>\<open>random.sample(TRIVIA_QUESTIONS, 5)\<close> returned (the five questions in
  some order) and \<open>target\<close> what \<^verbatim>\<open>random.randint(1, 100)\<close> returned. The fresh
  \<^verbatim>\<open>uuid4\<close> of a new row is an argument too, and the primary key refuses one that is
  taken. The parameters of an \<^verbatim>\<open>INSERT\<close> are bound before the statement runs, so a value
  the driver cannot bind raises before the key is looked at.
\<close>

definition get_initial_state :: "string \<Rightarrow> json list \<Rightarrow> int \<Rightarrow> pydict" where
  "get_initial_state game_id sample target =
     (if game_id = ''word_chain'' then
        [(''current_word'', JNull), (''words_used'', JList []), (''user_score'', JInt 0),
         (''companion_score'', JInt 0), (''turn'', JStr (ascii ''user'')), (''rounds'', JInt 0)]
      else if game_id = ''trivia'' then
        [(''questions'', JList sample), (''current_index'', JInt 0), (''user_score'', JInt 0),
         (''companion_score'', JInt 0), (''answers'', JList [])]
      else if game_id = ''guess_number'' then
        [(''target'', JInt target), (''min_range'', JInt 1), (''max_range'', JInt 100),
         (''guesses'', JList []), (''max_guesses'', JInt 7), (''won'', JBool False)]
      else [])"

definition create_session ::
    "database \<Rightarrow> string \<Rightarrow> string \<Rightarrow> string \<Rightarrow> json list \<Rightarrow> int \<Rightarrow> (pyerr + game_session) \<times> database" where
  "create_session db game_id companion_id new_id sample target =
     (let initial_state = get_initial_state game_id sample target;
          session = \<lparr>s_id = new_id, s_game_id = game_id, s_companion_id = companion_id,
                     s_state = to_stored initial_state, s_is_active = True\<rparr>
      in if \<not> storable initial_state then (Inl UnicodeEncodeError, db)
         else if new_id \<in> set (map s_id (sessions db)) then (Inl IntegrityError, db)
         else (Inr session, db\<lparr>sessions := sessions db @ [session]\<rparr>))"

fun py_gt :: "json \<Rightarrow> json \<Rightarrow> pyerr + bool" where
  \<comment> \<open>\<^verbatim>\<open>a > b\<close> on two numbers; Python also orders two strs and two lists\<close>
  "py_gt (JStr a) (JStr b) = Inl Unmodelled"
| "py_gt (JList a) (JList b) = Inl Unmodelled"
| "py_gt a b =
     (case as_num a of
        Inl e \<Rightarrow> Inl e
      | Inr x \<Rightarrow> (case as_num b of Inl e \<Rightarrow> Inl e | Inr y \<Rightarrow> Inr (x > y)))"

definition int64 :: "int \<Rightarrow> bool" where
  \<comment> \<open>what an \<^verbatim>\<open>INTEGER\<close> of SQLite holds\<close>
  "int64 i = (- (2 ^ 63) \<le> i \<and> i < 2 ^ 63)"

fun column_int :: "json \<Rightarrow> pyerr + int option" where
  \<comment> \<open>a value given to a \<^verbatim>\<open>Column(Integer, default=0)\<close> of a new row: the driver refuses
      an int beyond 64 bits with \<^verbatim>\<open>OverflowError\<close>, and the ORM leaves a \<^verbatim>\<open>None\<close> out of
      the \<^verbatim>\<open>INSERT\<close>, so that the column default 0 is stored\<close>
  "column_int (JInt i) = (if int64 i then Inr (Some i) else Inl OverflowError)"
| "column_int (JBool b) = Inr (Some (if b then 1 else 0))"
| "column_int JNull = Inr (Some 0)"
| "column_int v = Inl Unmodelled"

definition winner_of :: "json \<Rightarrow> json \<Rightarrow> pyerr + string" where
  "winner_of user_score companion_score =
     (case py_gt user_score companion_score of
        Inl e \<Rightarrow> Inl e
      | Inr u \<Rightarrow>
          if u then Inr ''user''
          else (case py_gt companion_score user_score of
                  Inl e \<Rightarrow> Inl e
                | Inr c \<Rightarrow> if c then Inr ''companion'' else Inr ''tie''))"

definition end_session ::
    "database \<Rightarrow> string \<Rightarrow> string \<Rightarrow> (pyerr + game_record option) \<times> database" where
  \<comment> \<open>the record and the deactivated session are written by one commit: when the
      commit raises, neither is\<close>
  "end_session db session_id new_id =
     (case get_session db session_id of
        None \<Rightarrow> (Inr None, db)
      | Some session \<Rightarrow>
          let state = get_state session;
              user_score = dict_get state ''user_score'' (JInt 0);
              companion_score = dict_get state ''companion_score'' (JInt 0)
          in
          (case winner_of user_score companion_score of
             Inl e \<Rightarrow> (Inl e, db)
           | Inr winner \<Rightarrow>
              (case column_int user_score of
                 Inl e \<Rightarrow> (Inl e, db)
               | Inr us \<Rightarrow>
              (case column_int companion_score of
                 Inl e \<Rightarrow> (Inl e, db)
               | Inr cs \<Rightarrow>
              (case column_int (dict_get state ''rounds'' (dict_get state ''current_index'' (JInt 0))) of
                 Inl e \<Rightarrow> (Inl e, db)
               | Inr rounds_played \<Rightarrow>
                   let record = \<lparr>r_id = new_id, r_game_id = s_game_id session,
                                 r_companion_id = s_companion_id session,
                                 r_session_id = Some (s_id session),
                                 r_user_score = us, r_companion_score = cs,
                                 r_rounds_played = rounds_played, r_winner = Some winner\<rparr>
                   in if new_id \<in> set (map r_id (records db)) then (Inl IntegrityError, db)
                      else (Inr (Some record),
                            (commit_session db (session\<lparr>s_is_active := False\<rparr>))
                              \<lparr>records := records db @ [record]\<rparr>))))))"

section \<open>Statistics\<close>

record type_stats =
  played :: int
  type_wins :: int

record stats =
  total_games :: int
  total_user_score :: int
  total_companion_score :: int
  wins :: int
  losses :: int
  ties :: int
  games_by_type :: "(string \<times> type_stats) list"

definition or0 :: "int option \<Rightarrow> int" where
  \<comment> \<open>\<^verbatim>\<open>x or 0\<close>\<close>
  "or0 x = (case x of None \<Rightarrow> 0 | Some n \<Rightarrow> n)"

definition stats_step :: "game_record \<Rightarrow> stats \<Rightarrow> stats" where
  \<comment> \<open>the body of \<^verbatim>\<open>for r in records\<close>\<close>
  "stats_step r st =
     (let st1 = st\<lparr>total_user_score := total_user_score st + or0 (r_user_score r)\<rparr>;
          st2 = st1\<lparr>total_companion_score := total_companion_score st1 + or0 (r_companion_score r)\<rparr>;
          st3 = (if r_winner r = Some ''user'' then st2\<lparr>wins := wins st2 + 1\<rparr>
                 else if r_winner r = Some ''companion'' then st2\<lparr>losses := losses st2 + 1\<rparr>
                 else st2\<lparr>ties := ties st2 + 1\<rparr>);
          by_type = games_by_type st3;
          by_type1 = (if map_of by_type (r_game_id r) = None
                      then AList.update (r_game_id r) \<lparr>played = 0, type_wins = 0\<rparr> by_type
                      else by_type);
          by_type2 = AList.map_entry (r_game_id r) (\<lambda>t. t\<lparr>played := played t + 1\<rparr>) by_type1;
          by_type3 = (if r_winner r = Some ''user''
                      then AList.map_entry (r_game_id r) (\<lambda>t. t\<lparr>type_wins := type_wins t + 1\<rparr>) by_type2
                      else by_type2)
      in st3\<lparr>games_by_type := by_type3\<rparr>)"

fun stats_loop :: "game_record list \<Rightarrow> stats \<Rightarrow> stats" where
  "stats_loop [] st = st"
| "stats_loop (r # rs) st = stats_loop rs (stats_step r st)"

definition zero_stats :: stats where
  "zero_stats = \<lparr>total_games = 0, total_user_score = 0, total_companion_score = 0,
                 wins = 0, losses = 0, ties = 0, games_by_type = []\<rparr>"

definition get_statistics :: "database \<Rightarrow> string \<Rightarrow> stats \<times> database" where
  \<comment> \<open>the database comes back with the result, as from every other operation: this one
      adds nothing to the session and commits nothing\<close>
  "get_statistics db companion_id =
     (let rs = filter (\<lambda>r. r_companion_id r = companion_id) (records db)
      in if rs = [] then (zero_stats, db)
         else (stats_loop rs (zero_stats\<lparr>total_games := int (length rs)\<rparr>), db))"

definition type_count :: "(string \<times> type_stats) list \<Rightarrow> string \<Rightarrow> int \<times> int" where
  \<comment> \<open>the two counters of a game in \<^verbatim>\<open>games_by_type\<close>, 0 and 0 before its first record\<close>
  "type_count by_type g =
     (case map_of by_type g of None \<Rightarrow> (0, 0) | Some t \<Rightarrow> (played t, type_wins t))"

section \<open>The HTTP routes\<close>

text \<open>\<^verbatim>\<open>routers/games.py\<close>: a route returns a body or raises an \<^verbatim>\<open>HTTPException\<close>.\<close>

datatype 'a response = Response 'a | HTTPException int json

definition msg_session_not_found :: pystr where
  "msg_session_not_found = ascii ''Session not found''"

definition create_session_route ::
    "database \<Rightarrow> string \<Rightarrow> string \<Rightarrow> string \<Rightarrow> json list \<Rightarrow> int \<Rightarrow> (pyerr + game_session) \<times> database" where
  "create_session_route db game_id companion_id new_id sample target =
     (case get_active_session db companion_id game_id of
        Some existing \<Rightarrow> (Inr existing, db)
      | None \<Rightarrow> create_session db game_id companion_id new_id sample target)"

definition get_session_route :: "database \<Rightarrow> string \<Rightarrow> game_session response" where
  "get_session_route db session_id =
     (case get_session db session_id of
        None \<Rightarrow> HTTPException 404 (JStr msg_session_not_found)
      | Some session \<Rightarrow> Response session)"

definition end_session_route ::
    "database \<Rightarrow> string \<Rightarrow> string \<Rightarrow> (pyerr + game_record response) \<times> database" where
  "end_session_route db session_id new_id =
     (case end_session db session_id new_id of
        (Inl e, db') \<Rightarrow> (Inl e, db')
      | (Inr None, db') \<Rightarrow> (Inr (HTTPException 404 (JStr msg_session_not_found)), db')
      | (Inr (Some result), db') \<Rightarrow> (Inr (Response result), db'))"

definition raise_400 :: "pydict \<Rightarrow> pyerr + pydict response" where
  \<comment> \<open>\<^verbatim>\<open>raise HTTPException(status_code=400, detail=result["error"])\<close>\<close>
  "raise_400 result =
     (case dict_item result ''error'' of Inl e \<Rightarrow> Inl e | Inr d \<Rightarrow> Inr (HTTPException 400 d))"

definition play_word_chain_route ::
    "database \<Rightarrow> string \<Rightarrow> pystr \<Rightarrow> (pyerr + pydict response) \<times> database" where
  "play_word_chain_route db session_id word =
     (case play_word_chain db session_id word of
        (Inl e, db') \<Rightarrow> (Inl e, db')
      | (Inr result, db') \<Rightarrow>
          if has_key ''error'' result \<and> \<not> truthy (dict_get result ''valid'' (JBool True))
          then (Inr (Response result), db')
          else if has_key ''error'' result then (raise_400 result, db')
          else (Inr (Response result), db'))"

definition play_trivia_route ::
    "database \<Rightarrow> string \<Rightarrow> pystr \<Rightarrow> (pyerr + pydict response) \<times> database" where
  "play_trivia_route db session_id answer =
     (case play_trivia db session_id answer of
        (Inl e, db') \<Rightarrow> (Inl e, db')
      | (Inr result, db') \<Rightarrow>
          if has_key ''error'' result \<and> \<not> truthy (dict_get result ''finished'' JNull)
          then (raise_400 result, db')
          else (Inr (Response result), db'))"

definition play_guess_number_route ::
    "database \<Rightarrow> string \<Rightarrow> int \<Rightarrow> (pyerr + pydict response) \<times> database" where
  "play_guess_number_route db session_id guess =
     (case play_guess_number db session_id guess of
        (Inl e, db') \<Rightarrow> (Inl e, db')
      | (Inr result, db') \<Rightarrow>
          if has_key ''error'' result \<and> \<not> truthy (dict_get result ''finished'' JNull)
          then (raise_400 result, db')
          else (Inr (Response result), db'))"

text \<open>
  The requests of the games router that write to the database, and the database a run
  of them leaves, from the empty tables on. A request that raises leaves the database as
  its last commit left it.
\<close>

datatype request =
    CreateSession string string string "json list" int
  | EndSession string string
  | PlayWordChain string pystr
  | PlayTrivia string pystr
  | PlayGuessNumber string int

fun handle :: "database \<Rightarrow> request \<Rightarrow> database" where
  "handle db (CreateSession game_id companion_id new_id sample target) =
     snd (create_session_route db game_id companion_id new_id sample target)"
| "handle db (EndSession session_id new_id) = snd (end_session_route db session_id new_id)"
| "handle db (PlayWordChain session_id word) = snd (play_word_chain_route db session_id word)"
| "handle db (PlayTrivia session_id answer) = snd (play_trivia_route db session_id answer)"
| "handle db (PlayGuessNumber session_id guess) = snd (play_guess_number_route db session_id guess)"

definition empty_db :: database where
  "empty_db = \<lparr>sessions = [], records = []\<rparr>"

definition serve :: "request list \<Rightarrow> database" where
  "serve reqs = foldl handle empty_db reqs"

definition active_pairs :: "database \<Rightarrow> (string \<times> string) list" where
  \<comment> \<open>the (companion, game) pairs of the active sessions, row by row\<close>
  "active_pairs db = map (\<lambda>s. (s_companion_id s, s_game_id s)) (filter s_is_active (sessions db))"

definition table_ok :: "database \<Rightarrow> bool" where
  \<comment> \<open>what the session table keeps: the primary key, and one active session for a
      companion and a game\<close>
  "table_ok db = (distinct (map s_id (sessions db)) \<and> distinct (active_pairs db))"

section \<open>Sample data\<close>

text \<open>
  Three sessions of one companion, one per game, each a few moves in; a finished trivia
  session and a won guess-number session of another companion; and five records.
\<close>

definition demo_word_state :: pydict where
  "demo_word_state =
     [(''current_word'', JStr [29483, 22836, 40560]), (''words_used'', JList [JStr [29483, 22836, 40560]]),
      (''user_score'', JInt 1), (''companion_score'', JInt 0), (''turn'', JStr (ascii ''companion'')),
      (''rounds'', JInt 1)]"

definition demo_trivia_state :: pydict where
  "demo_trivia_state = get_initial_state ''trivia'' (drop 2 TRIVIA_QUESTIONS @ take 2 TRIVIA_QUESTIONS) 0"

definition demo_guess_state :: pydict where
  "demo_guess_state =
     [(''target'', JInt 42), (''min_range'', JInt 21), (''max_range'', JInt 49),
      (''guesses'', JList [JInt 50, JInt 20]), (''max_guesses'', JInt 7), (''won'', JBool False)]"

definition demo_word_session :: game_session where
  "demo_word_session = \<lparr>s_id = ''s1'', s_game_id = ''word_chain'', s_companion_id = ''c1'',
        s_state = to_stored demo_word_state, s_is_active = True\<rparr>"

definition demo_trivia_session :: game_session where
  "demo_trivia_session = \<lparr>s_id = ''s2'', s_game_id = ''trivia'', s_companion_id = ''c1'',
        s_state = to_stored demo_trivia_state, s_is_active = True\<rparr>"

definition demo_guess_session :: game_session where
  "demo_guess_session = \<lparr>s_id = ''s3'', s_game_id = ''guess_number'', s_companion_id = ''c1'',
        s_state = to_stored demo_guess_state, s_is_active = True\<rparr>"

definition demo_db :: database where
  "demo_db = \<lparr>sessions = [demo_word_session, demo_trivia_session, demo_guess_session], records = []\<rparr>"

definition demo_trivia_done_state :: pydict where
  "demo_trivia_done_state =
     [(''questions'', JList TRIVIA_QUESTIONS), (''current_index'', JInt 5), (''user_score'', JInt 3),
      (''companion_score'', JInt 0), (''answers'', JList [])]"

definition demo_guess_won_state :: pydict where
  "demo_guess_won_state =
     [(''target'', JInt 42), (''min_range'', JInt 21), (''max_range'', JInt 49),
      (''guesses'', JList [JInt 50, JInt 20, JInt 42]), (''max_guesses'', JInt 7),
      (''won'', JBool True), (''user_score'', JInt 5)]"

definition demo_trivia_done_session :: game_session where
  "demo_trivia_done_session = \<lparr>s_id = ''s4'', s_game_id = ''trivia'', s_companion_id = ''c2'',
        s_state = to_stored demo_trivia_done_state, s_is_active = True\<rparr>"

definition demo_guess_won_session :: game_session where
  "demo_guess_won_session = \<lparr>s_id = ''s5'', s_game_id = ''guess_number'', s_companion_id = ''c2'',
        s_state = to_stored demo_guess_won_state, s_is_active = True\<rparr>"

definition demo_done_db :: database where
  "demo_done_db = \<lparr>sessions = [demo_trivia_done_session, demo_guess_won_session], records = []\<rparr>"

definition demo_stats_db :: database where
  "demo_stats_db = \<lparr>sessions = [],
     records =
      [\<lparr>r_id = ''r1'', r_game_id = ''trivia'', r_companion_id = ''c1'', r_session_id = Some ''s2'',
         r_user_score = Some 3, r_companion_score = Some 0, r_rounds_played = Some 5,
         r_winner = Some ''user''\<rparr>,
       \<lparr>r_id = ''r2'', r_game_id = ''word_chain'', r_companion_id = ''c1'', r_session_id = Some ''s1'',
         r_user_score = Some 4, r_companion_score = Some 0, r_rounds_played = Some 4,
         r_winner = Some ''user''\<rparr>,
       \<lparr>r_id = ''r3'', r_game_id = ''trivia'', r_companion_id = ''c1'', r_session_id = Some ''s6'',
         r_user_score = Some 0, r_companion_score = Some 0, r_rounds_played = Some 0,
         r_winner = Some ''tie''\<rparr>,
       \<lparr>r_id = ''r4'', r_game_id = ''trivia'', r_companion_id = ''c2'', r_session_id = Some ''s4'',
         r_user_score = Some 1, r_companion_score = Some 2, r_rounds_played = Some 5,
         r_winner = Some ''companion''\<rparr>,
       \<lparr>r_id = ''r5'', r_game_id = ''guess_number'', r_companion_id = ''c2'', r_session_id = None,
         r_user_score = None, r_companion_score = None, r_rounds_played = None,
         r_winner = None\<rparr>]\<rparr>"

section \<open>Dictionaries and the session table\<close>

lemma map_of_dict_set: "map_of (dict_set d k v) k' = (if k' = k then Some v else map_of d k')"
  by (simp add: dict_set_def update_conv')

lemma dict_get_dict_set:
  "dict_get (dict_set d k v) k' dflt = (if k' = k then v else dict_get d k' dflt)"
  by (simp add: dict_get_def map_of_dict_set)

lemma dict_get_Some: "map_of d k = Some v \<Longrightarrow> dict_get d k dflt = v"
  by (simp add: dict_get_def)

lemma dict_item_Some: "map_of d k = Some v \<Longrightarrow> dict_item d k = Inr v"
  by (simp add: dict_item_def)

lemma encodable_lookup:
  "list_all (\<lambda>kv. encodable (snd kv)) d \<Longrightarrow> map_of d k = Some v \<Longrightarrow> encodable v"
  by (induction d) (auto split: if_splits)

lemma storable_lookup: "storable d \<Longrightarrow> map_of d k = Some v \<Longrightarrow> encodable v"
  by (simp add: storable_def encodable_lookup)

lemma storable_dict_get: "storable d \<Longrightarrow> encodable dflt \<Longrightarrow> encodable (dict_get d k dflt)"
  using storable_lookup [of d k] by (cases "map_of d k") (simp_all add: dict_get_def)

lemma encodable_update:
  "list_all (\<lambda>kv. encodable (snd kv)) d \<Longrightarrow> encodable v \<Longrightarrow>
   list_all (\<lambda>kv. encodable (snd kv)) (AList.update k v d)"
  by (induction d) auto

lemma storable_dict_set: "storable d \<Longrightarrow> encodable v \<Longrightarrow> storable (dict_set d k v)"
  by (simp add: storable_def dict_set_def encodable_update)

lemma storable_get_state: "storable (get_state s)"
  using Rep_stored [of "s_state s"] by (simp add: get_state_def)

lemma get_state_set_state: "storable d \<Longrightarrow> get_state (set_state s d) = d"
  by (simp add: get_state_def set_state_def to_stored.rep_eq)

lemma set_state_fields:
  "s_id (set_state s d) = s_id s" "s_game_id (set_state s d) = s_game_id s"
  "s_companion_id (set_state s d) = s_companion_id s" "s_is_active (set_state s d) = s_is_active s"
  by (simp_all add: set_state_def)

lemma get_session_id: "get_session db sid = Some s \<Longrightarrow> s_id s = sid"
  by (auto simp: get_session_def find_Some_iff)

lemma find_map_replace:
  "find (\<lambda>s. s_id s = sid) xs = Some s \<Longrightarrow> s_id s' = sid \<Longrightarrow>
   find (\<lambda>s. s_id s = sid) (map (\<lambda>s. if s_id s = sid then s' else s) xs) = Some s'"
  by (induction xs) (auto split: if_splits)

lemma get_session_commit:
  "get_session db sid = Some s \<Longrightarrow> s_id s' = sid \<Longrightarrow> get_session (commit_session db s') sid = Some s'"
  by (simp add: get_session_def commit_session_def find_map_replace)

lemma get_session_set_state:
  assumes "get_session db sid = Some s"
  shows "get_session (commit_session db (set_state s d)) sid = Some (set_state s d)"
  using assms get_session_id [OF assms] by (simp add: get_session_commit set_state_fields)

lemma play_stored:
  assumes "get_session db sid = Some s" "s_game_id s = game"
    "move (get_state s) a = (res, Some st')" "storable st'"
  shows "play move game db sid a = (res, commit_session db (set_state s st'))"
  using assms by (simp add: play_def commit_state_def)

lemma play_not_stored:
  assumes "get_session db sid = Some s" "s_game_id s = game"
    "move (get_state s) a = (res, Some st')" "\<not> storable st'"
  shows "play move game db sid a = (Inl UnicodeEncodeError, db)"
  using assms by (simp add: play_def commit_state_def)

lemma play_kept:
  assumes "get_session db sid = Some s" "s_game_id s = game" "move (get_state s) a = (res, None)"
  shows "play move game db sid a = (res, db)"
  using assms by (simp add: play_def)

section \<open>The rules of word chain\<close>

lemma word_chain_move_used:
  assumes "map_of state ''words_used'' = Some (JList used)" "JStr word \<in> set used"
  shows "word_chain_move state word = (Inr [(''error'', JStr msg_word_used), (''valid'', JBool False)], None)"
  using assms by (simp add: word_chain_move_def dict_get_Some)

lemma word_chain_move_mismatch:
  assumes "map_of state ''words_used'' = Some (JList used)" "JStr word \<notin> set used"
    "dict_get state ''current_word'' JNull = JStr cw" "cw \<noteq> []" "word \<noteq> []" "hd word \<noteq> last cw"
  shows "word_chain_move state word = (Inr [(''error'', JStr (msg_need_start [last cw])), (''valid'', JBool False)], None)"
  using assms by (cases word) (simp_all add: word_chain_move_def dict_get_Some)

lemma word_chain_move_accept:
  assumes "map_of state ''words_used'' = Some (JList used)" "JStr word \<notin> set used"
    "cur = JNull \<or> cur = JStr [] \<or> (\<exists>cw. cur = JStr cw \<and> cw \<noteq> [] \<and> hd word = last cw)"
    "dict_get state ''current_word'' JNull = cur"
    "word \<noteq> []"
    "dict_get state ''user_score'' (JInt 0) = JInt us"
    "dict_get state ''rounds'' (JInt 0) = JInt r"
    "storable state"
  shows "\<exists>st'. word_chain_move state word =
           (Inr [(''valid'', JBool True), (''word'', JStr word), (''state'', JObj st')], Some st') \<and>
         storable st' = list_all scalar word \<and>
         map_of st' ''words_used'' = Some (JList (used @ [JStr word])) \<and>
         map_of st' ''current_word'' = Some (JStr word) \<and>
         map_of st' ''user_score'' = Some (JInt (us + 1)) \<and>
         map_of st' ''rounds'' = Some (JInt (r + 1)) \<and>
         map_of st' ''turn'' = Some (JStr (ascii ''companion'')) \<and>
         (\<forall>k. k \<notin> {''words_used'', ''current_word'', ''user_score'', ''rounds'', ''turn''} \<longrightarrow>
              map_of st' k = map_of state k)"
proof -
  let ?st = "dict_set (dict_set (dict_set (dict_set (dict_set state
      ''words_used'' (JList (used @ [JStr word]))) ''current_word'' (JStr word))
      ''user_score'' (JInt (us + 1))) ''rounds'' (JInt (r + 1))) ''turn'' (JStr (ascii ''companion''))"
  have m: "word_chain_move state word =
      (Inr [(''valid'', JBool True), (''word'', JStr word), (''state'', JObj ?st)], Some ?st)"
    using assms(1-7)
    by (cases word) (auto simp add: word_chain_move_def dict_get_Some dict_item_Some
        dict_get_dict_set Let_def)
  have used: "encodable (JList used)"
    by (rule storable_lookup [OF assms(8) assms(1)])
  have comp: "encodable (JStr (ascii ''companion''))"
    by (simp add: ascii_def scalar_def)
  have e: "storable ?st = list_all scalar word"
  proof
    assume "storable ?st"
    moreover have "map_of ?st ''current_word'' = Some (JStr word)"
      by (simp add: map_of_dict_set)
    ultimately have "encodable (JStr word)" by (rule storable_lookup)
    then show "list_all scalar word" by simp
  next
    assume "list_all scalar word"
    with used assms(8) comp show "storable ?st"
      by (intro storable_dict_set) simp_all
  qed
  show ?thesis
    by (rule exI [of _ ?st]) (simp add: m e map_of_dict_set)
qed

lemma demo_word_storable: "storable demo_word_state"
  by (simp add: storable_def demo_word_state_def ascii_def scalar_def)

lemma demo_word_get_state: "get_state demo_word_session = demo_word_state"
  by (simp add: demo_word_session_def get_state_def to_stored.rep_eq demo_word_storable)

lemma demo_get_word: "get_session demo_db ''s1'' = Some demo_word_session"
  by (simp add: get_session_def demo_db_def demo_word_session_def)

text \<open>
  Claim C4 as stated fails on a word that is not well-formed Unicode. The session \<^verbatim>\<open>s1\<close>
  has "\<^verbatim>\<open>U+732B U+5934 U+9E70\<close>" as its current word; the word made of \<^verbatim>\<open>U+9E70\<close> and
  the lone surrogate \<^verbatim>\<open>U+D800\<close> is not empty, is not among the used words and starts with
  the last character of the current word, yet the call ends in the \<^verbatim>\<open>UnicodeEncodeError\<close>
  of the commit, and the database stays as it was: nothing is appended.
\<close>

theorem play_word_chain_surrogate_counterexample:
  "[40560, 55296] \<noteq> ([] :: pystr) \<and>
   map_of (get_state demo_word_session) ''words_used'' = Some (JList [JStr [29483, 22836, 40560]]) \<and>
   JStr [40560, 55296] \<notin> set [JStr [29483, 22836, 40560]] \<and>
   dict_get (get_state demo_word_session) ''current_word'' JNull = JStr [29483, 22836, 40560] \<and>
   hd [40560, 55296] = last [29483, 22836, 40560 :: nat] \<and>
   get_session demo_db ''s1'' = Some demo_word_session \<and>
   play_word_chain demo_db ''s1'' [40560, 55296] = (Inl UnicodeEncodeError, demo_db)"
proof -
  have m: "\<exists>st'. word_chain_move demo_word_state [40560, 55296] = (Inr st', Some
      [(''current_word'', JStr [40560, 55296]),
       (''words_used'', JList [JStr [29483, 22836, 40560], JStr [40560, 55296]]),
       (''user_score'', JInt 2), (''companion_score'', JInt 0),
       (''turn'', JStr (ascii ''companion'')), (''rounds'', JInt 2)])"
    by (simp add: word_chain_move_def demo_word_state_def dict_get_def dict_item_def dict_set_def
        Let_def)
  then obtain res where m': "word_chain_move (get_state demo_word_session) [40560, 55296] = (Inr res, Some
      [(''current_word'', JStr [40560, 55296]),
       (''words_used'', JList [JStr [29483, 22836, 40560], JStr [40560, 55296]]),
       (''user_score'', JInt 2), (''companion_score'', JInt 0),
       (''turn'', JStr (ascii ''companion'')), (''rounds'', JInt 2)])"
    by (auto simp: demo_word_get_state)
  have n: "\<not> storable [(''current_word'', JStr [40560, 55296]),
       (''words_used'', JList [JStr [29483, 22836, 40560], JStr [40560, 55296]]),
       (''user_score'', JInt 2), (''companion_score'', JInt 0),
       (''turn'', JStr (ascii ''companion'')), (''rounds'', JInt 2)]"
    by (simp add: storable_def scalar_def)
  have g: "s_game_id demo_word_session = ''word_chain''"
    by (simp add: demo_word_session_def)
  have p: "play_word_chain demo_db ''s1'' [40560, 55296] = (Inl UnicodeEncodeError, demo_db)"
    unfolding play_word_chain_def
    by (rule play_not_stored [where move = word_chain_move, OF demo_get_word g m' n])
  show ?thesis
    using p demo_get_word by (simp add: demo_word_get_state demo_word_state_def dict_get_def)
qed

text \<open>
  Claim C4, as amended. The session \<open>s\<close> is a word chain session whose state has the list
  \<open>used\<close> as \<^verbatim>\<open>words_used\<close>, \<open>cur\<close> (null or a str) as \<^verbatim>\<open>current_word\<close> and the integers
  \<open>us\<close> and \<open>r\<close> as \<^verbatim>\<open>user_score\<close> and \<^verbatim>\<open>rounds\<close>; \<open>word\<close> is not empty. A word that is in
  \<open>used\<close> is rejected with the "already used" message and the database stays as it is.
  Else, when \<open>cur\<close> is a non-empty str whose last character is not the first of \<open>word\<close>,
  the word is rejected with the "must start with" message naming that last character,
  and the database stays as it is. Otherwise, when every character of the word is a
  Unicode scalar value, the move is valid: the stored state \<open>st'\<close> has the word appended to
  \<^verbatim>\<open>words_used\<close>, the word as \<^verbatim>\<open>current_word\<close>, \<^verbatim>\<open>user_score\<close> and \<^verbatim>\<open>rounds\<close> one higher,
  \<^verbatim>\<open>turn\<close> = "companion", every other key as before, and the result echoes the word and
  that state. And otherwise, when the word holds a surrogate, the commit raises
  \<^verbatim>\<open>UnicodeEncodeError\<close> and the database stays as it is.
\<close>

theorem play_word_chain_rules:
  assumes "get_session db sid = Some s" and "s_game_id s = ''word_chain''"
    and "map_of (get_state s) ''words_used'' = Some (JList used)"
    and "dict_get (get_state s) ''current_word'' JNull = cur"
    and "cur = JNull \<or> (\<exists>cw. cur = JStr cw)"
    and "dict_get (get_state s) ''user_score'' (JInt 0) = JInt us"
    and "dict_get (get_state s) ''rounds'' (JInt 0) = JInt r"
    and "word \<noteq> []"
  shows "(JStr word \<in> set used \<longrightarrow>
            play_word_chain db sid word =
              (Inr [(''error'', JStr msg_word_used), (''valid'', JBool False)], db)) \<and>
         (\<forall>cw. JStr word \<notin> set used \<and> cur = JStr cw \<and> cw \<noteq> [] \<and> hd word \<noteq> last cw \<longrightarrow>
            play_word_chain db sid word =
              (Inr [(''error'', JStr (msg_need_start [last cw])), (''valid'', JBool False)], db)) \<and>
         (JStr word \<notin> set used \<and> (\<forall>cw. cur = JStr cw \<and> cw \<noteq> [] \<longrightarrow> hd word = last cw) \<and>
          list_all scalar word \<longrightarrow>
            (\<exists>st'. play_word_chain db sid word =
                 (Inr [(''valid'', JBool True), (''word'', JStr word), (''state'', JObj st')],
                  commit_session db (set_state s st')) \<and>
               get_session (commit_session db (set_state s st')) sid = Some (set_state s st') \<and>
               get_state (set_state s st') = st' \<and>
               map_of st' ''words_used'' = Some (JList (used @ [JStr word])) \<and>
               map_of st' ''current_word'' = Some (JStr word) \<and>
               map_of st' ''user_score'' = Some (JInt (us + 1)) \<and>
               map_of st' ''rounds'' = Some (JInt (r + 1)) \<and>
               map_of st' ''turn'' = Some (JStr (ascii ''companion'')) \<and>
               (\<forall>k. k \<notin> {''words_used'', ''current_word'', ''user_score'', ''rounds'', ''turn''} \<longrightarrow>
                    map_of st' k = map_of (get_state s) k))) \<and>
         (JStr word \<notin> set used \<and> (\<forall>cw. cur = JStr cw \<and> cw \<noteq> [] \<longrightarrow> hd word = last cw) \<and>
          \<not> list_all scalar word \<longrightarrow>
            play_word_chain db sid word = (Inl UnicodeEncodeError, db))"
proof -
  have rejected_used: "play_word_chain db sid word =
      (Inr [(''error'', JStr msg_word_used), (''valid'', JBool False)], db)"
    if "JStr word \<in> set used"
  proof -
    from assms(3) that have "word_chain_move (get_state s) word =
        (Inr [(''error'', JStr msg_word_used), (''valid'', JBool False)], None)"
      by (rule word_chain_move_used)
    with assms(1,2) show ?thesis
      unfolding play_word_chain_def by (simp add: play_kept)
  qed
  have rejected_chain: "play_word_chain db sid word =
      (Inr [(''error'', JStr (msg_need_start [last cw])), (''valid'', JBool False)], db)"
    if "JStr word \<notin> set used \<and> cur = JStr cw \<and> cw \<noteq> [] \<and> hd word \<noteq> last cw" for cw
  proof -
    from that assms(3,4,8) have "word_chain_move (get_state s) word =
        (Inr [(''error'', JStr (msg_need_start [last cw])), (''valid'', JBool False)], None)"
      by (intro word_chain_move_mismatch) auto
    with assms(1,2) show ?thesis
      unfolding play_word_chain_def by (simp add: play_kept)
  qed
  have accepted: "\<exists>st'. word_chain_move (get_state s) word =
           (Inr [(''valid'', JBool True), (''word'', JStr word), (''state'', JObj st')], Some st') \<and>
         storable st' = list_all scalar word \<and>
         map_of st' ''words_used'' = Some (JList (used @ [JStr word])) \<and>
         map_of st' ''current_word'' = Some (JStr word) \<and>
         map_of st' ''user_score'' = Some (JInt (us + 1)) \<and>
         map_of st' ''rounds'' = Some (JInt (r + 1)) \<and>
         map_of st' ''turn'' = Some (JStr (ascii ''companion'')) \<and>
         (\<forall>k. k \<notin> {''words_used'', ''current_word'', ''user_score'', ''rounds'', ''turn''} \<longrightarrow>
              map_of st' k = map_of (get_state s) k)"
    if a: "JStr word \<notin> set used" "\<forall>cw. cur = JStr cw \<and> cw \<noteq> [] \<longrightarrow> hd word = last cw"
  proof -
    from a(2) assms(5)
    have c: "cur = JNull \<or> cur = JStr [] \<or> (\<exists>cw. cur = JStr cw \<and> cw \<noteq> [] \<and> hd word = last cw)"
      by auto
    show ?thesis
      by (rule word_chain_move_accept [OF assms(3) a(1) c assms(4) assms(8) assms(6) assms(7)
            storable_get_state])
  qed
  have stored: "\<exists>st'. play_word_chain db sid word =
                 (Inr [(''valid'', JBool True), (''word'', JStr word), (''state'', JObj st')],
                  commit_session db (set_state s st')) \<and>
               get_session (commit_session db (set_state s st')) sid = Some (set_state s st') \<and>
               get_state (set_state s st') = st' \<and>
               map_of st' ''words_used'' = Some (JList (used @ [JStr word])) \<and>
               map_of st' ''current_word'' = Some (JStr word) \<and>
               map_of st' ''user_score'' = Some (JInt (us + 1)) \<and>
               map_of st' ''rounds'' = Some (JInt (r + 1)) \<and>
               map_of st' ''turn'' = Some (JStr (ascii ''companion'')) \<and>
               (\<forall>k. k \<notin> {''words_used'', ''current_word'', ''user_score'', ''rounds'', ''turn''} \<longrightarrow>
                    map_of st' k = map_of (get_state s) k)"
    if a: "JStr word \<notin> set used \<and> (\<forall>cw. cur = JStr cw \<and> cw \<noteq> [] \<longrightarrow> hd word = last cw) \<and>
          list_all scalar word"
  proof -
    from accepted a obtain st' where m: "word_chain_move (get_state s) word =
           (Inr [(''valid'', JBool True), (''word'', JStr word), (''state'', JObj st')], Some st')"
      and e: "storable st' = list_all scalar word"
      and p: "map_of st' ''words_used'' = Some (JList (used @ [JStr word]))"
         "map_of st' ''current_word'' = Some (JStr word)"
         "map_of st' ''user_score'' = Some (JInt (us + 1))"
         "map_of st' ''rounds'' = Some (JInt (r + 1))"
         "map_of st' ''turn'' = Some (JStr (ascii ''companion''))"
         "\<forall>k. k \<notin> {''words_used'', ''current_word'', ''user_score'', ''rounds'', ''turn''} \<longrightarrow>
              map_of st' k = map_of (get_state s) k"
      by blast
    from e a have st: "storable st'" by simp
    have pl: "play_word_chain db sid word =
        (Inr [(''valid'', JBool True), (''word'', JStr word), (''state'', JObj st')],
         commit_session db (set_state s st'))"
      unfolding play_word_chain_def
      by (rule play_stored [where move = word_chain_move, OF assms(1,2) m st])
    have gs: "get_session (commit_session db (set_state s st')) sid = Some (set_state s st')"
      by (rule get_session_set_state [OF assms(1)])
    have gt: "get_state (set_state s st') = st'"
      by (rule get_state_set_state [OF st])
    from pl gs gt p show ?thesis by blast
  qed
  have raised: "play_word_chain db sid word = (Inl UnicodeEncodeError, db)"
    if a: "JStr word \<notin> set used \<and> (\<forall>cw. cur = JStr cw \<and> cw \<noteq> [] \<longrightarrow> hd word = last cw) \<and>
          \<not> list_all scalar word"
  proof -
    from accepted a obtain st' res where m: "word_chain_move (get_state s) word = (res, Some st')"
      and e: "storable st' = list_all scalar word"
      by blast
    from e a have st: "\<not> storable st'" by simp
    show ?thesis
      unfolding play_word_chain_def
      by (rule play_not_stored [where move = word_chain_move, OF assms(1,2) m st])
  qed
  from rejected_used rejected_chain stored raised show ?thesis by blast
qed

theorem play_word_chain_rules_witness:
  "get_session demo_db ''s1'' = Some demo_word_session \<and>
   s_game_id demo_word_session = ''word_chain'' \<and>
   map_of (get_state demo_word_session) ''words_used'' = Some (JList [JStr [29483, 22836, 40560]]) \<and>
   dict_get (get_state demo_word_session) ''current_word'' JNull = JStr [29483, 22836, 40560] \<and>
   play_word_chain demo_db ''s1'' [29483, 22836, 40560] =
     (Inr [(''error'', JStr msg_word_used), (''valid'', JBool False)], demo_db) \<and>
   play_word_chain demo_db ''s1'' [24322, 24819, 22825, 24320] =
     (Inr [(''error'', JStr (msg_need_start [40560])), (''valid'', JBool False)], demo_db) \<and>
   list_all scalar [40560, 20987, 38271, 31354] \<and>
   (\<exists>st'. play_word_chain demo_db ''s1'' [40560, 20987, 38271, 31354] =
        (Inr [(''valid'', JBool True), (''word'', JStr [40560, 20987, 38271, 31354]), (''state'', JObj st')],
         commit_session demo_db (set_state demo_word_session st')) \<and>
      get_state (set_state demo_word_session st') = st' \<and>
      map_of st' ''words_used'' = Some (JList [JStr [29483, 22836, 40560], JStr [40560, 20987, 38271, 31354]]) \<and>
      map_of st' ''current_word'' = Some (JStr [40560, 20987, 38271, 31354]) \<and>
      map_of st' ''user_score'' = Some (JInt 2) \<and>
      map_of st' ''rounds'' = Some (JInt 2) \<and>
      map_of st' ''turn'' = Some (JStr (ascii ''companion''))) \<and>
   \<not> list_all scalar [40560, 57000] \<and>
   play_word_chain demo_db ''s1'' [40560, 57000] = (Inl UnicodeEncodeError, demo_db)"
proof -
  have h2: "s_game_id demo_word_session = ''word_chain''"
    by (simp add: demo_word_session_def)
  have h3: "map_of (get_state demo_word_session) ''words_used'' = Some (JList [JStr [29483, 22836, 40560]])"
    by (simp add: demo_word_get_state demo_word_state_def)
  have h4: "dict_get (get_state demo_word_session) ''current_word'' JNull = JStr [29483, 22836, 40560]"
    by (simp add: demo_word_get_state demo_word_state_def dict_get_def)
  have h5: "JStr [29483, 22836, 40560] = JNull \<or> (\<exists>cw. JStr [29483, 22836, 40560] = JStr cw)"
    by simp
  have h6: "dict_get (get_state demo_word_session) ''user_score'' (JInt 0) = JInt 1"
    by (simp add: demo_word_get_state demo_word_state_def dict_get_def)
  have h7: "dict_get (get_state demo_word_session) ''rounds'' (JInt 0) = JInt 1"
    by (simp add: demo_word_get_state demo_word_state_def dict_get_def)
  note rules = play_word_chain_rules [OF demo_get_word h2 h3 h4 h5 h6 h7]
  have sc: "list_all scalar [40560, 20987, 38271, 31354]" "\<not> list_all scalar [40560, 57000]"
    by (simp_all add: scalar_def)
  have used: "play_word_chain demo_db ''s1'' [29483, 22836, 40560] =
     (Inr [(''error'', JStr msg_word_used), (''valid'', JBool False)], demo_db)"
    using rules [of "[29483, 22836, 40560]"] by simp
  have mismatch: "play_word_chain demo_db ''s1'' [24322, 24819, 22825, 24320] =
     (Inr [(''error'', JStr (msg_need_start [40560])), (''valid'', JBool False)], demo_db)"
    using rules [of "[24322, 24819, 22825, 24320]"] by simp
  have accept: "\<exists>st'. play_word_chain demo_db ''s1'' [40560, 20987, 38271, 31354] =
        (Inr [(''valid'', JBool True), (''word'', JStr [40560, 20987, 38271, 31354]), (''state'', JObj st')],
         commit_session demo_db (set_state demo_word_session st')) \<and>
      get_state (set_state demo_word_session st') = st' \<and>
      map_of st' ''words_used'' = Some (JList [JStr [29483, 22836, 40560], JStr [40560, 20987, 38271, 31354]]) \<and>
      map_of st' ''current_word'' = Some (JStr [40560, 20987, 38271, 31354]) \<and>
      map_of st' ''user_score'' = Some (JInt 2) \<and>
      map_of st' ''rounds'' = Some (JInt 2) \<and>
      map_of st' ''turn'' = Some (JStr (ascii ''companion''))"
    using rules [of "[40560, 20987, 38271, 31354]"] sc(1) by auto
  have raised: "play_word_chain demo_db ''s1'' [40560, 57000] = (Inl UnicodeEncodeError, demo_db)"
    using rules [of "[40560, 57000]"] sc(2) by simp
  show ?thesis using demo_get_word h2 h3 h4 used mismatch sc accept raised by blast
qed

section \<open>The rules of trivia\<close>

lemma py_index_nth: "0 \<le> i \<Longrightarrow> i < int (length xs) \<Longrightarrow> py_index xs i = Inr (xs ! nat i)"
  by (simp add: py_index_def)

lemma trivia_move_answer:
  assumes q: "map_of state ''questions'' = Some (JList qs)"
    and i: "dict_get state ''current_index'' (JInt 0) = JInt i" "0 \<le> i" "i < int (length qs)"
    and cq: "qs ! nat i = JObj q" "map_of q ''answer'' = Some a" "map_of q ''question'' = Some qt"
    and us: "dict_get state ''user_score'' (JInt 0) = JInt us"
    and an: "map_of state ''answers'' = Some (JList ans)"
    and st: "storable state"
  shows "\<exists>st'. trivia_move state answer =
           (Inr [(''correct'', JBool (a = JStr answer)), (''correct_answer'', a),
                 (''finished'', JBool (int (length qs) \<le> i + 1)), (''state'', JObj st')], Some st') \<and>
         storable st' = list_all scalar answer \<and>
         (a = JStr answer \<longrightarrow> map_of st' ''user_score'' = Some (JInt (us + 1))) \<and>
         (a \<noteq> JStr answer \<longrightarrow> map_of st' ''user_score'' = map_of state ''user_score'') \<and>
         map_of st' ''answers'' =
           Some (JList (ans @ [JObj [(''question'', qt), (''user_answer'', JStr answer),
                                    (''correct_answer'', a), (''correct'', JBool (a = JStr answer))]])) \<and>
         map_of st' ''current_index'' = Some (JInt (i + 1)) \<and>
         (\<forall>k. k \<notin> {''user_score'', ''answers'', ''current_index''} \<longrightarrow> map_of st' k = map_of state k)"
proof -
  let ?entry = "JObj [(''question'', qt), (''user_answer'', JStr answer),
      (''correct_answer'', a), (''correct'', JBool (a = JStr answer))]"
  let ?st1 = "if a = JStr answer then dict_set state ''user_score'' (JInt (us + 1)) else state"
  let ?st = "dict_set (dict_set ?st1 ''answers'' (JList (ans @ [?entry]))) ''current_index'' (JInt (i + 1))"
  have g: "py_getitem (JList qs) i = Inr (JObj q)"
    using i cq by (simp add: py_index_nth)
  have m: "trivia_move state answer =
      (Inr [(''correct'', JBool (a = JStr answer)), (''correct_answer'', a),
            (''finished'', JBool (int (length qs) \<le> i + 1)), (''state'', JObj ?st)], Some ?st)"
  proof (cases "a = JStr answer")
    case True
    then show ?thesis using q i us an g cq
      by (simp add: trivia_move_def dict_get_Some dict_item_Some map_of_dict_set Let_def)
  next
    case False
    then show ?thesis using q i us an g cq
      by (simp add: trivia_move_def dict_get_Some dict_item_Some map_of_dict_set Let_def)
  qed
  have "encodable (JList qs)" by (rule storable_lookup [OF st q])
  then have "\<forall>x \<in> set qs. encodable x" by (simp add: list_all_iff)
  moreover have "JObj q \<in> set qs" using i cq(1) by (metis nth_mem nat_less_iff of_nat_0_le_iff nat_int zless_nat_conj)
  ultimately have "encodable (JObj q)" by blast
  then have eq: "list_all (\<lambda>kv. encodable (snd kv)) q" by simp
  have ea: "encodable a" by (rule encodable_lookup [OF eq cq(2)])
  have eqt: "encodable qt" by (rule encodable_lookup [OF eq cq(3)])
  have eans: "encodable (JList ans)" by (rule storable_lookup [OF st an])
  have st1: "storable ?st1" using st by (simp add: storable_dict_set)
  have e: "storable ?st = list_all scalar answer"
  proof
    assume "storable ?st"
    moreover have "map_of ?st ''answers'' = Some (JList (ans @ [?entry]))"
      by (simp add: map_of_dict_set)
    ultimately have "encodable (JList (ans @ [?entry]))" by (rule storable_lookup)
    then show "list_all scalar answer" by simp
  next
    assume "list_all scalar answer"
    with ea eqt eans have "encodable (JList (ans @ [?entry]))" by simp
    with st1 show "storable ?st" by (intro storable_dict_set) simp_all
  qed
  show ?thesis
    by (rule exI [of _ ?st]) (simp add: m e map_of_dict_set)
qed

lemma demo_trivia_storable: "storable demo_trivia_state"
  by (simp add: storable_def demo_trivia_state_def get_initial_state_def TRIVIA_QUESTIONS_def
      scalar_def)

lemma demo_trivia_get_state: "get_state demo_trivia_session = demo_trivia_state"
  by (simp add: demo_trivia_session_def get_state_def to_stored.rep_eq demo_trivia_storable)

lemma demo_get_trivia: "get_session demo_db ''s2'' = Some demo_trivia_session"
  by (simp add: get_session_def demo_db_def demo_word_session_def demo_trivia_session_def)

lemma demo_trivia_questions:
  "map_of (get_state demo_trivia_session) ''questions'' =
     Some (JList (drop 2 TRIVIA_QUESTIONS @ take 2 TRIVIA_QUESTIONS))"
  by (simp add: demo_trivia_get_state demo_trivia_state_def get_initial_state_def)

lemma demo_trivia_first:
  "(drop 2 TRIVIA_QUESTIONS @ take 2 TRIVIA_QUESTIONS) ! nat 0 =
     JObj [(''question'', JStr [20013, 22269, 26368, 38271, 30340, 27827, 27969, 26159, 20160, 20040, 65311]),
           (''answer'', JStr [38271, 27743]),
           (''options'', JList [JStr [40644, 27827], JStr [38271, 27743],
                               JStr [29664, 27743], JStr [28142, 27827]])]"
  by (simp add: TRIVIA_QUESTIONS_def)

lemma demo_trivia_fields:
  "s_game_id demo_trivia_session = ''trivia''"
  "dict_get (get_state demo_trivia_session) ''current_index'' (JInt 0) = JInt 0"
  "(0::int) < int (length (drop 2 TRIVIA_QUESTIONS @ take 2 TRIVIA_QUESTIONS))"
  "dict_get (get_state demo_trivia_session) ''user_score'' (JInt 0) = JInt 0"
  "map_of (get_state demo_trivia_session) ''answers'' = Some (JList [])"
  "map_of (get_state demo_trivia_session) ''user_score'' = Some (JInt 0)"
  by (simp_all add: demo_trivia_get_state demo_trivia_state_def get_initial_state_def dict_get_def
      TRIVIA_QUESTIONS_def, simp add: demo_trivia_session_def)

text \<open>
  Claim C5 as stated fails on an answer that is not well-formed Unicode. The trivia
  session \<^verbatim>\<open>s2\<close> is at question 0 of 5; the answer made of the lone surrogate \<^verbatim>\<open>U+D800\<close>
  is compared and found wrong, but no record of it is appended and \<^verbatim>\<open>current_index\<close> does
  not move: the commit raises \<^verbatim>\<open>UnicodeEncodeError\<close> and the database stays as it was.
\<close>

theorem play_trivia_surrogate_counterexample:
  "get_session demo_db ''s2'' = Some demo_trivia_session \<and>
   s_game_id demo_trivia_session = ''trivia'' \<and>
   dict_get (get_state demo_trivia_session) ''current_index'' (JInt 0) = JInt 0 \<and>
   (0::int) < int (length (drop 2 TRIVIA_QUESTIONS @ take 2 TRIVIA_QUESTIONS)) \<and>
   map_of (get_state demo_trivia_session) ''questions'' =
     Some (JList (drop 2 TRIVIA_QUESTIONS @ take 2 TRIVIA_QUESTIONS)) \<and>
   play_trivia demo_db ''s2'' [55296] = (Inl UnicodeEncodeError, demo_db)"
proof -
  have h8: "map_of [(''question'', JStr [20013, 22269, 26368, 38271, 30340, 27827, 27969, 26159, 20160, 20040, 65311]),
           (''answer'', JStr [38271, 27743]),
           (''options'', JList [JStr [40644, 27827], JStr [38271, 27743],
                               JStr [29664, 27743], JStr [28142, 27827]])] ''answer'' = Some (JStr [38271, 27743])"
    by simp
  have h9: "map_of [(''question'', JStr [20013, 22269, 26368, 38271, 30340, 27827, 27969, 26159, 20160, 20040, 65311]),
           (''answer'', JStr [38271, 27743]),
           (''options'', JList [JStr [40644, 27827], JStr [38271, 27743],
                               JStr [29664, 27743], JStr [28142, 27827]])] ''question'' =
      Some (JStr [20013, 22269, 26368, 38271, 30340, 27827, 27969, 26159, 20160, 20040, 65311])"
    by simp
  have z: "(0::int) \<le> 0" by simp
  from trivia_move_answer [OF demo_trivia_questions demo_trivia_fields(2) z demo_trivia_fields(3)
      demo_trivia_first h8 h9 demo_trivia_fields(4,5) storable_get_state, of "[55296]"]
  obtain res st' where m: "trivia_move (get_state demo_trivia_session) [55296] = (res, Some st')"
    and e: "storable st' = list_all scalar [55296]"
    by blast
  from e have n: "\<not> storable st'" by (simp add: scalar_def)
  have p: "play_trivia demo_db ''s2'' [55296] = (Inl UnicodeEncodeError, demo_db)"
    unfolding play_trivia_def
    by (rule play_not_stored [where move = trivia_move, OF demo_get_trivia demo_trivia_fields(1) m n])
  show ?thesis
    using demo_get_trivia demo_trivia_fields(1,2,3) demo_trivia_questions p by blast
qed

text \<open>
  Claim C5, as amended. The session \<open>s\<close> is a trivia session whose state has the list \<open>qs\<close>
  as \<^verbatim>\<open>questions\<close>, an index \<open>i\<close> with \<open>0 \<le> i < length qs\<close> as \<^verbatim>\<open>current_index\<close>, the
  integer \<open>us\<close> as \<^verbatim>\<open>user_score\<close> and the list \<open>ans\<close> as \<^verbatim>\<open>answers\<close>; question \<open>i\<close> has the
  text \<open>qt\<close> and the answer \<open>a\<close>. When every character of the submitted str is a Unicode
  scalar value, the move is correct exactly when \<open>a\<close> is that str; the stored state \<open>st'\<close>
  has \<^verbatim>\<open>user_score\<close> one higher on a correct answer and untouched otherwise, the record
  of the move appended to \<^verbatim>\<open>answers\<close>, \<^verbatim>\<open>current_index\<close> one higher and every other key as
  before; the result reports \<^verbatim>\<open>correct\<close>, the correct answer, and \<^verbatim>\<open>finished\<close> = (new index
  \<open>\<ge>\<close> number of questions). When the submitted str holds a surrogate, the commit raises
  \<^verbatim>\<open>UnicodeEncodeError\<close> and the database stays as it is.
\<close>

theorem play_trivia_scores:
  assumes "get_session db sid = Some s" and "s_game_id s = ''trivia''"
    and "map_of (get_state s) ''questions'' = Some (JList qs)"
    and "dict_get (get_state s) ''current_index'' (JInt 0) = JInt i"
    and "0 \<le> i" and "i < int (length qs)"
    and "qs ! nat i = JObj q" and "map_of q ''answer'' = Some a" and "map_of q ''question'' = Some qt"
    and "dict_get (get_state s) ''user_score'' (JInt 0) = JInt us"
    and "map_of (get_state s) ''answers'' = Some (JList ans)"
  shows "(list_all scalar answer \<longrightarrow>
          (\<exists>st'. play_trivia db sid answer =
             (Inr [(''correct'', JBool (a = JStr answer)), (''correct_answer'', a),
                   (''finished'', JBool (int (length qs) \<le> i + 1)), (''state'', JObj st')],
              commit_session db (set_state s st')) \<and>
           get_session (commit_session db (set_state s st')) sid = Some (set_state s st') \<and>
           get_state (set_state s st') = st' \<and>
           (a = JStr answer \<longrightarrow> map_of st' ''user_score'' = Some (JInt (us + 1))) \<and>
           (a \<noteq> JStr answer \<longrightarrow> map_of st' ''user_score'' = map_of (get_state s) ''user_score'') \<and>
           map_of st' ''answers'' =
             Some (JList (ans @ [JObj [(''question'', qt), (''user_answer'', JStr answer),
                                      (''correct_answer'', a), (''correct'', JBool (a = JStr answer))]])) \<and>
           map_of st' ''current_index'' = Some (JInt (i + 1)) \<and>
           (\<forall>k. k \<notin> {''user_score'', ''answers'', ''current_index''} \<longrightarrow>
                map_of st' k = map_of (get_state s) k))) \<and>
         (\<not> list_all scalar answer \<longrightarrow> play_trivia db sid answer = (Inl UnicodeEncodeError, db))"
proof -
  from trivia_move_answer [OF assms(3-11) storable_get_state, of answer]
  obtain st' where m: "trivia_move (get_state s) answer =
           (Inr [(''correct'', JBool (a = JStr answer)), (''correct_answer'', a),
                 (''finished'', JBool (int (length qs) \<le> i + 1)), (''state'', JObj st')], Some st')"
    and e: "storable st' = list_all scalar answer"
    and p: "a = JStr answer \<longrightarrow> map_of st' ''user_score'' = Some (JInt (us + 1))"
      "a \<noteq> JStr answer \<longrightarrow> map_of st' ''user_score'' = map_of (get_state s) ''user_score''"
      "map_of st' ''answers'' =
           Some (JList (ans @ [JObj [(''question'', qt), (''user_answer'', JStr answer),
                                    (''correct_answer'', a), (''correct'', JBool (a = JStr answer))]]))"
      "map_of st' ''current_index'' = Some (JInt (i + 1))"
      "\<forall>k. k \<notin> {''user_score'', ''answers'', ''current_index''} \<longrightarrow>
              map_of st' k = map_of (get_state s) k"
    by blast
  have stored: "play_trivia db sid answer =
           (Inr [(''correct'', JBool (a = JStr answer)), (''correct_answer'', a),
                 (''finished'', JBool (int (length qs) \<le> i + 1)), (''state'', JObj st')],
            commit_session db (set_state s st')) \<and>
      get_session (commit_session db (set_state s st')) sid = Some (set_state s st') \<and>
      get_state (set_state s st') = st'"
    if "list_all scalar answer"
  proof -
    from e that have st: "storable st'" by simp
    have "play_trivia db sid answer =
           (Inr [(''correct'', JBool (a = JStr answer)), (''correct_answer'', a),
                 (''finished'', JBool (int (length qs) \<le> i + 1)), (''state'', JObj st')],
            commit_session db (set_state s st'))"
      unfolding play_trivia_def
      by (rule play_stored [where move = trivia_move, OF assms(1,2) m st])
    moreover have "get_session (commit_session db (set_state s st')) sid = Some (set_state s st')"
      by (rule get_session_set_state [OF assms(1)])
    moreover have "get_state (set_state s st') = st'"
      by (rule get_state_set_state [OF st])
    ultimately show ?thesis by blast
  qed
  have raised: "play_trivia db sid answer = (Inl UnicodeEncodeError, db)"
    if "\<not> list_all scalar answer"
  proof -
    from e that have st: "\<not> storable st'" by simp
    show ?thesis
      unfolding play_trivia_def
      by (rule play_not_stored [where move = trivia_move, OF assms(1,2) m st])
  qed
  from stored raised p show ?thesis by blast
qed

theorem play_trivia_scores_witness:
  "get_session demo_db ''s2'' = Some demo_trivia_session \<and>
   s_game_id demo_trivia_session = ''trivia'' \<and>
   dict_get (get_state demo_trivia_session) ''current_index'' (JInt 0) = JInt 0 \<and>
   (0::int) < int (length (drop 2 TRIVIA_QUESTIONS @ take 2 TRIVIA_QUESTIONS)) \<and>
   dict_get (get_state demo_trivia_session) ''user_score'' (JInt 0) = JInt 0 \<and>
   list_all scalar [38271, 27743] \<and>
   (\<exists>st'. play_trivia demo_db ''s2'' [38271, 27743] =
        (Inr [(''correct'', JBool True), (''correct_answer'', JStr [38271, 27743]),
              (''finished'', JBool False), (''state'', JObj st')],
         commit_session demo_db (set_state demo_trivia_session st')) \<and>
      get_state (set_state demo_trivia_session st') = st' \<and>
      map_of st' ''user_score'' = Some (JInt 1) \<and>
      map_of st' ''current_index'' = Some (JInt 1)) \<and>
   list_all scalar [40644, 27827] \<and>
   (\<exists>st'. play_trivia demo_db ''s2'' [40644, 27827] =
        (Inr [(''correct'', JBool False), (''correct_answer'', JStr [38271, 27743]),
              (''finished'', JBool False), (''state'', JObj st')],
         commit_session demo_db (set_state demo_trivia_session st')) \<and>
      get_state (set_state demo_trivia_session st') = st' \<and>
      map_of st' ''user_score'' = Some (JInt 0) \<and>
      map_of st' ''current_index'' = Some (JInt 1)) \<and>
   \<not> list_all scalar [38271, 56320] \<and>
   play_trivia demo_db ''s2'' [38271, 56320] = (Inl UnicodeEncodeError, demo_db)"
proof -
  have h5: "(0::int) \<le> 0" by simp
  have h8: "map_of [(''question'', JStr [20013, 22269, 26368, 38271, 30340, 27827, 27969, 26159, 20160, 20040, 65311]),
           (''answer'', JStr [38271, 27743]),
           (''options'', JList [JStr [40644, 27827], JStr [38271, 27743],
                               JStr [29664, 27743], JStr [28142, 27827]])] ''answer'' = Some (JStr [38271, 27743])"
    by simp
  have h9: "map_of [(''question'', JStr [20013, 22269, 26368, 38271, 30340, 27827, 27969, 26159, 20160, 20040, 65311]),
           (''answer'', JStr [38271, 27743]),
           (''options'', JList [JStr [40644, 27827], JStr [38271, 27743],
                               JStr [29664, 27743], JStr [28142, 27827]])] ''question'' =
      Some (JStr [20013, 22269, 26368, 38271, 30340, 27827, 27969, 26159, 20160, 20040, 65311])"
    by simp
  note scores = play_trivia_scores [OF demo_get_trivia demo_trivia_fields(1) demo_trivia_questions
      demo_trivia_fields(2) h5 demo_trivia_fields(3) demo_trivia_first h8 h9
      demo_trivia_fields(4,5)]
  have sc: "list_all scalar [38271, 27743]" "list_all scalar [40644, 27827]"
      "\<not> list_all scalar [38271, 56320]"
    by (simp_all add: scalar_def)
  have right: "\<exists>st'. play_trivia demo_db ''s2'' [38271, 27743] =
        (Inr [(''correct'', JBool True), (''correct_answer'', JStr [38271, 27743]),
              (''finished'', JBool False), (''state'', JObj st')],
         commit_session demo_db (set_state demo_trivia_session st')) \<and>
      get_state (set_state demo_trivia_session st') = st' \<and>
      map_of st' ''user_score'' = Some (JInt 1) \<and>
      map_of st' ''current_index'' = Some (JInt 1)"
    using scores [of "[38271, 27743]"] sc(1) by (auto simp: TRIVIA_QUESTIONS_def)
  have wrong: "\<exists>st'. play_trivia demo_db ''s2'' [40644, 27827] =
        (Inr [(''correct'', JBool False), (''correct_answer'', JStr [38271, 27743]),
              (''finished'', JBool False), (''state'', JObj st')],
         commit_session demo_db (set_state demo_trivia_session st')) \<and>
      get_state (set_state demo_trivia_session st') = st' \<and>
      map_of st' ''user_score'' = Some (JInt 0) \<and>
      map_of st' ''current_index'' = Some (JInt 1)"
    using scores [of "[40644, 27827]"] sc(2) demo_trivia_fields(6)
    by (auto simp: TRIVIA_QUESTIONS_def)
  have raised: "play_trivia demo_db ''s2'' [38271, 56320] = (Inl UnicodeEncodeError, demo_db)"
    using scores [of "[38271, 56320]"] sc(3) by blast
  show ?thesis
    using demo_get_trivia demo_trivia_fields(1,2,3,4) sc right wrong raised by blast
qed

section \<open>Finished games\<close>

lemma trivia_move_over:
  assumes "dict_get state ''questions'' (JList []) = JList qs"
    and "dict_get state ''current_index'' (JInt 0) = JInt i" and "int (length qs) \<le> i"
  shows "trivia_move state answer =
           (Inr [(''error'', JStr msg_no_more_questions), (''finished'', JBool True)], None)"
  using assms by (simp add: trivia_move_def)

lemma guess_number_move_over:
  assumes "dict_get state ''won'' JNull = JBool w"
    and "dict_get state ''guesses'' (JList []) = JList gs"
    and "dict_get state ''max_guesses'' (JInt 7) = JInt m"
    and "w \<or> m \<le> int (length gs)"
  shows "guess_number_move state guess =
           (Inr [(''error'', JStr msg_game_finished), (''finished'', JBool True)], None)"
  using assms by (auto simp add: guess_number_move_def len_ge_def Let_def)

text \<open>
  Claim C9. A trivia session whose \<^verbatim>\<open>current_index\<close> has reached the number of questions
  answers a move with the "No more questions" result, marked finished, and a guess-number
  session that is won, or whose guesses have reached \<^verbatim>\<open>max_guesses\<close>, answers with
  "Game already finished", marked finished; in both cases the database stays as it is.
\<close>

theorem finished_game_refuses_move:
  "(get_session db sid = Some s \<and> s_game_id s = ''trivia'' \<and>
    dict_get (get_state s) ''questions'' (JList []) = JList qs \<and>
    dict_get (get_state s) ''current_index'' (JInt 0) = JInt i \<and> int (length qs) \<le> i \<longrightarrow>
      play_trivia db sid answer =
        (Inr [(''error'', JStr msg_no_more_questions), (''finished'', JBool True)], db)) \<and>
   (get_session db sid = Some s \<and> s_game_id s = ''guess_number'' \<and>
    dict_get (get_state s) ''won'' JNull = JBool w \<and>
    dict_get (get_state s) ''guesses'' (JList []) = JList gs \<and>
    dict_get (get_state s) ''max_guesses'' (JInt 7) = JInt m \<and> (w \<or> m \<le> int (length gs)) \<longrightarrow>
      play_guess_number db sid guess =
        (Inr [(''error'', JStr msg_game_finished), (''finished'', JBool True)], db))"
proof (intro conjI impI)
  assume a: "get_session db sid = Some s \<and> s_game_id s = ''trivia'' \<and>
    dict_get (get_state s) ''questions'' (JList []) = JList qs \<and>
    dict_get (get_state s) ''current_index'' (JInt 0) = JInt i \<and> int (length qs) \<le> i"
  then have "trivia_move (get_state s) answer =
      (Inr [(''error'', JStr msg_no_more_questions), (''finished'', JBool True)], None)"
    by (intro trivia_move_over) auto
  with a show "play_trivia db sid answer =
      (Inr [(''error'', JStr msg_no_more_questions), (''finished'', JBool True)], db)"
    unfolding play_trivia_def by (simp add: play_kept)
next
  assume a: "get_session db sid = Some s \<and> s_game_id s = ''guess_number'' \<and>
    dict_get (get_state s) ''won'' JNull = JBool w \<and>
    dict_get (get_state s) ''guesses'' (JList []) = JList gs \<and>
    dict_get (get_state s) ''max_guesses'' (JInt 7) = JInt m \<and> (w \<or> m \<le> int (length gs))"
  then have "guess_number_move (get_state s) guess =
      (Inr [(''error'', JStr msg_game_finished), (''finished'', JBool True)], None)"
    by (intro guess_number_move_over [where w = w and gs = gs and m = m]) auto
  with a show "play_guess_number db sid guess =
      (Inr [(''error'', JStr msg_game_finished), (''finished'', JBool True)], db)"
    unfolding play_guess_number_def by (simp add: play_kept)
qed

section \<open>The rules of guess the number\<close>

lemma guess_number_move_open:
  assumes t: "map_of state ''target'' = Some (JInt t)"
    and gs: "dict_get state ''guesses'' (JList []) = JList gs"
    and m: "dict_get state ''max_guesses'' (JInt 7) = JInt m"
    and w: "map_of state ''won'' = Some (JBool False)"
    and lt: "int (length gs) < m"
    and mn: "dict_get state ''min_range'' (JInt 1) = JInt mn"
    and mx: "dict_get state ''max_range'' (JInt 100) = JInt mx"
    and st: "storable state"
  shows "\<exists>st'. guess_number_move state g =
           (Inr [(''guess'', JInt g),
                 (''hint'', JStr (if g = t then ascii ''correct''
                                  else if g < t then ascii ''higher'' else ascii ''lower'')),
                 (''finished'', JBool (g = t \<or> m \<le> int (length gs) + 1)),
                 (''won'', JBool (g = t)),
                 (''target'', if g = t \<or> m \<le> int (length gs) + 1 then JInt t else JNull),
                 (''state'', JObj st')], Some st') \<and>
         storable st' \<and>
         map_of st' ''guesses'' = Some (JList (gs @ [JInt g])) \<and>
         map_of st' ''won'' = Some (JBool (g = t)) \<and>
         (g = t \<longrightarrow> map_of st' ''user_score'' = Some (JInt (m - (int (length gs) + 1) + 1))) \<and>
         (g \<noteq> t \<longrightarrow> map_of st' ''user_score'' = map_of state ''user_score'') \<and>
         (g < t \<longrightarrow> map_of st' ''min_range'' = Some (JInt (max mn (g + 1)))) \<and>
         (\<not> g < t \<longrightarrow> map_of st' ''min_range'' = map_of state ''min_range'') \<and>
         (t < g \<longrightarrow> map_of st' ''max_range'' = Some (JInt (min mx (g - 1)))) \<and>
         (\<not> t < g \<longrightarrow> map_of st' ''max_range'' = map_of state ''max_range'') \<and>
         (\<forall>k. k \<notin> {''guesses'', ''won'', ''user_score'', ''min_range'', ''max_range''} \<longrightarrow>
              map_of st' k = map_of state k)"
proof -
  have w': "dict_get state ''won'' JNull = JBool False" using w by (simp add: dict_get_Some)
  have t': "dict_get state ''target'' JNull = JInt t" using t by (simp add: dict_get_Some)
  have "encodable (dict_get state ''guesses'' (JList []))"
    using st by (rule storable_dict_get) simp
  then have egs: "list_all encodable gs" using gs by simp
  note sto = storable_dict_set [OF storable_dict_set [OF storable_dict_set]]
  consider (eq) "g = t" | (less) "g < t" | (greater) "t < g" by linarith
  then show ?thesis
  proof cases
    case eq
    then show ?thesis using w w' t' gs m lt st egs
      by (simp add: guess_number_move_def guess_step_def guess_result_def len_ge_def int_eq_def
          dict_get_dict_set dict_item_def map_of_dict_set Let_def sto)
  next
    case less
    then show ?thesis using w w' t' gs m lt mn st egs
      by (simp add: guess_number_move_def guess_step_def guess_result_def len_ge_def int_eq_def
          py_max_def dict_get_dict_set dict_item_def map_of_dict_set Let_def max_def
          storable_dict_set)
  next
    case greater
    then show ?thesis using w w' t' gs m lt mx st egs
      by (simp add: guess_number_move_def guess_step_def guess_result_def len_ge_def int_eq_def
          py_min_def dict_get_dict_set dict_item_def map_of_dict_set Let_def min_def
          storable_dict_set)
  qed
qed

text \<open>
  Claim C3. The session \<open>s\<close> is an unfinished guess-number session: its state has the
  integer \<open>t\<close> as \<^verbatim>\<open>target\<close>, the list \<open>gs\<close> as \<^verbatim>\<open>guesses\<close>, \<^verbatim>\<open>won\<close> = false, the integer
  \<open>m\<close> as \<^verbatim>\<open>max_guesses\<close> with \<open>length gs < m\<close>, and the integers \<open>mn\<close> and \<open>mx\<close> as
  \<^verbatim>\<open>min_range\<close> and \<^verbatim>\<open>max_range\<close>. A guess \<open>g\<close> is appended to \<^verbatim>\<open>guesses\<close>. When \<open>g = t\<close> the
  stored state has \<^verbatim>\<open>won\<close> = true and \<^verbatim>\<open>user_score\<close> = \<open>m - (length gs + 1) + 1\<close>, the
  current guess counted, and the hint is "correct". When \<open>g < t\<close> it has \<^verbatim>\<open>min_range\<close> =
  \<open>max mn (g + 1)\<close> and the hint is "higher"; when \<open>g > t\<close> it has \<^verbatim>\<open>max_range\<close> =
  \<open>min mx (g - 1)\<close> and the hint is "lower". The game is finished when the guess is right
  or the guesses have reached \<open>m\<close>, and the result carries the target exactly then, null
  otherwise.
\<close>

theorem play_guess_number_rules:
  assumes "get_session db sid = Some s" and "s_game_id s = ''guess_number''"
    and "map_of (get_state s) ''target'' = Some (JInt t)"
    and "dict_get (get_state s) ''guesses'' (JList []) = JList gs"
    and "dict_get (get_state s) ''max_guesses'' (JInt 7) = JInt m"
    and "map_of (get_state s) ''won'' = Some (JBool False)"
    and "int (length gs) < m"
    and "dict_get (get_state s) ''min_range'' (JInt 1) = JInt mn"
    and "dict_get (get_state s) ''max_range'' (JInt 100) = JInt mx"
  shows "\<exists>st'. play_guess_number db sid g =
           (Inr [(''guess'', JInt g),
                 (''hint'', JStr (if g = t then ascii ''correct''
                                  else if g < t then ascii ''higher'' else ascii ''lower'')),
                 (''finished'', JBool (g = t \<or> m \<le> int (length gs) + 1)),
                 (''won'', JBool (g = t)),
                 (''target'', if g = t \<or> m \<le> int (length gs) + 1 then JInt t else JNull),
                 (''state'', JObj st')],
            commit_session db (set_state s st')) \<and>
         get_session (commit_session db (set_state s st')) sid = Some (set_state s st') \<and>
         get_state (set_state s st') = st' \<and>
         map_of st' ''guesses'' = Some (JList (gs @ [JInt g])) \<and>
         map_of st' ''won'' = Some (JBool (g = t)) \<and>
         (g = t \<longrightarrow> map_of st' ''user_score'' = Some (JInt (m - (int (length gs) + 1) + 1))) \<and>
         (g \<noteq> t \<longrightarrow> map_of st' ''user_score'' = map_of (get_state s) ''user_score'') \<and>
         (g < t \<longrightarrow> map_of st' ''min_range'' = Some (JInt (max mn (g + 1)))) \<and>
         (\<not> g < t \<longrightarrow> map_of st' ''min_range'' = map_of (get_state s) ''min_range'') \<and>
         (t < g \<longrightarrow> map_of st' ''max_range'' = Some (JInt (min mx (g - 1)))) \<and>
         (\<not> t < g \<longrightarrow> map_of st' ''max_range'' = map_of (get_state s) ''max_range'') \<and>
         (\<forall>k. k \<notin> {''guesses'', ''won'', ''user_score'', ''min_range'', ''max_range''} \<longrightarrow>
              map_of st' k = map_of (get_state s) k)"
proof -
  from guess_number_move_open [OF assms(3-9) storable_get_state, of g]
  obtain st' where m: "guess_number_move (get_state s) g =
           (Inr [(''guess'', JInt g),
                 (''hint'', JStr (if g = t then ascii ''correct''
                                  else if g < t then ascii ''higher'' else ascii ''lower'')),
                 (''finished'', JBool (g = t \<or> m \<le> int (length gs) + 1)),
                 (''won'', JBool (g = t)),
                 (''target'', if g = t \<or> m \<le> int (length gs) + 1 then JInt t else JNull),
                 (''state'', JObj st')], Some st')"
    and sto: "storable st'"
    and p: "map_of st' ''guesses'' = Some (JList (gs @ [JInt g]))"
      "map_of st' ''won'' = Some (JBool (g = t))"
      "g = t \<longrightarrow> map_of st' ''user_score'' = Some (JInt (m - (int (length gs) + 1) + 1))"
      "g \<noteq> t \<longrightarrow> map_of st' ''user_score'' = map_of (get_state s) ''user_score''"
      "g < t \<longrightarrow> map_of st' ''min_range'' = Some (JInt (max mn (g + 1)))"
      "\<not> g < t \<longrightarrow> map_of st' ''min_range'' = map_of (get_state s) ''min_range''"
      "t < g \<longrightarrow> map_of st' ''max_range'' = Some (JInt (min mx (g - 1)))"
      "\<not> t < g \<longrightarrow> map_of st' ''max_range'' = map_of (get_state s) ''max_range''"
      "\<forall>k. k \<notin> {''guesses'', ''won'', ''user_score'', ''min_range'', ''max_range''} \<longrightarrow>
              map_of st' k = map_of (get_state s) k"
    by blast
  have pl: "play_guess_number db sid g =
           (Inr [(''guess'', JInt g),
                 (''hint'', JStr (if g = t then ascii ''correct''
                                  else if g < t then ascii ''higher'' else ascii ''lower'')),
                 (''finished'', JBool (g = t \<or> m \<le> int (length gs) + 1)),
                 (''won'', JBool (g = t)),
                 (''target'', if g = t \<or> m \<le> int (length gs) + 1 then JInt t else JNull),
                 (''state'', JObj st')],
            commit_session db (set_state s st'))"
    unfolding play_guess_number_def
    by (rule play_stored [where move = guess_number_move, OF assms(1,2) m sto])
  have gs: "get_session (commit_session db (set_state s st')) sid = Some (set_state s st')"
    by (rule get_session_set_state [OF assms(1)])
  have gt: "get_state (set_state s st') = st'"
    by (rule get_state_set_state [OF sto])
  from pl gs gt p show ?thesis by blast
qed

lemma demo_guess_storable: "storable demo_guess_state"
  by (simp add: storable_def demo_guess_state_def)

lemma demo_guess_get_state: "get_state demo_guess_session = demo_guess_state"
  by (simp add: demo_guess_session_def get_state_def to_stored.rep_eq demo_guess_storable)

lemma demo_get_guess: "get_session demo_db ''s3'' = Some demo_guess_session"
  by (simp add: get_session_def demo_db_def demo_word_session_def demo_trivia_session_def
      demo_guess_session_def)

theorem play_guess_number_rules_witness:
  "get_session demo_db ''s3'' = Some demo_guess_session \<and>
   s_game_id demo_guess_session = ''guess_number'' \<and>
   map_of (get_state demo_guess_session) ''target'' = Some (JInt 42) \<and>
   dict_get (get_state demo_guess_session) ''guesses'' (JList []) = JList [JInt 50, JInt 20] \<and>
   dict_get (get_state demo_guess_session) ''max_guesses'' (JInt 7) = JInt 7 \<and>
   map_of (get_state demo_guess_session) ''won'' = Some (JBool False) \<and>
   (\<exists>st'. play_guess_number demo_db ''s3'' 42 =
        (Inr [(''guess'', JInt 42), (''hint'', JStr (ascii ''correct'')), (''finished'', JBool True),
              (''won'', JBool True), (''target'', JInt 42), (''state'', JObj st')],
         commit_session demo_db (set_state demo_guess_session st')) \<and>
      map_of st' ''won'' = Some (JBool True) \<and>
      map_of st' ''user_score'' = Some (JInt 5)) \<and>
   (\<exists>st'. play_guess_number demo_db ''s3'' 30 =
        (Inr [(''guess'', JInt 30), (''hint'', JStr (ascii ''higher'')), (''finished'', JBool False),
              (''won'', JBool False), (''target'', JNull), (''state'', JObj st')],
         commit_session demo_db (set_state demo_guess_session st')) \<and>
      map_of st' ''min_range'' = Some (JInt 31)) \<and>
   (\<exists>st'. play_guess_number demo_db ''s3'' 45 =
        (Inr [(''guess'', JInt 45), (''hint'', JStr (ascii ''lower'')), (''finished'', JBool False),
              (''won'', JBool False), (''target'', JNull), (''state'', JObj st')],
         commit_session demo_db (set_state demo_guess_session st')) \<and>
      map_of st' ''max_range'' = Some (JInt 44))"
proof -
  have h2: "s_game_id demo_guess_session = ''guess_number''"
    by (simp add: demo_guess_session_def)
  have h3: "map_of (get_state demo_guess_session) ''target'' = Some (JInt 42)"
    by (simp add: demo_guess_get_state demo_guess_state_def)
  have h4: "dict_get (get_state demo_guess_session) ''guesses'' (JList []) = JList [JInt 50, JInt 20]"
    by (simp add: demo_guess_get_state demo_guess_state_def dict_get_def)
  have h5: "dict_get (get_state demo_guess_session) ''max_guesses'' (JInt 7) = JInt 7"
    by (simp add: demo_guess_get_state demo_guess_state_def dict_get_def)
  have h6: "map_of (get_state demo_guess_session) ''won'' = Some (JBool False)"
    by (simp add: demo_guess_get_state demo_guess_state_def)
  have h7: "int (length [JInt 50, JInt 20]) < 7" by simp
  have h8: "dict_get (get_state demo_guess_session) ''min_range'' (JInt 1) = JInt 21"
    by (simp add: demo_guess_get_state demo_guess_state_def dict_get_def)
  have h9: "dict_get (get_state demo_guess_session) ''max_range'' (JInt 100) = JInt 49"
    by (simp add: demo_guess_get_state demo_guess_state_def dict_get_def)
  note rules = play_guess_number_rules [OF demo_get_guess h2 h3 h4 h5 h6 h7 h8 h9]
  have hit: "\<exists>st'. play_guess_number demo_db ''s3'' 42 =
        (Inr [(''guess'', JInt 42), (''hint'', JStr (ascii ''correct'')), (''finished'', JBool True),
              (''won'', JBool True), (''target'', JInt 42), (''state'', JObj st')],
         commit_session demo_db (set_state demo_guess_session st')) \<and>
      map_of st' ''won'' = Some (JBool True) \<and>
      map_of st' ''user_score'' = Some (JInt 5)"
    using rules [of 42] by auto
  have low: "\<exists>st'. play_guess_number demo_db ''s3'' 30 =
        (Inr [(''guess'', JInt 30), (''hint'', JStr (ascii ''higher'')), (''finished'', JBool False),
              (''won'', JBool False), (''target'', JNull), (''state'', JObj st')],
         commit_session demo_db (set_state demo_guess_session st')) \<and>
      map_of st' ''min_range'' = Some (JInt 31)"
    using rules [of 30] by auto
  have high: "\<exists>st'. play_guess_number demo_db ''s3'' 45 =
        (Inr [(''guess'', JInt 45), (''hint'', JStr (ascii ''lower'')), (''finished'', JBool False),
              (''won'', JBool False), (''target'', JNull), (''state'', JObj st')],
         commit_session demo_db (set_state demo_guess_session st')) \<and>
      map_of st' ''max_range'' = Some (JInt 44)"
    using rules [of 45] by auto
  show ?thesis using demo_get_guess h2 h3 h4 h5 h6 hit low high by blast
qed

lemma demo_trivia_done_storable: "storable demo_trivia_done_state"
  by (simp add: storable_def demo_trivia_done_state_def TRIVIA_QUESTIONS_def scalar_def)

lemma demo_trivia_done_get_state: "get_state demo_trivia_done_session = demo_trivia_done_state"
  by (simp add: demo_trivia_done_session_def get_state_def to_stored.rep_eq
      demo_trivia_done_storable)

lemma demo_guess_won_storable: "storable demo_guess_won_state"
  by (simp add: storable_def demo_guess_won_state_def)

lemma demo_guess_won_get_state: "get_state demo_guess_won_session = demo_guess_won_state"
  by (simp add: demo_guess_won_session_def get_state_def to_stored.rep_eq
      demo_guess_won_storable)

lemma demo_get_trivia_done: "get_session demo_done_db ''s4'' = Some demo_trivia_done_session"
  by (simp add: get_session_def demo_done_db_def demo_trivia_done_session_def)

lemma demo_get_guess_won: "get_session demo_done_db ''s5'' = Some demo_guess_won_session"
  by (simp add: get_session_def demo_done_db_def demo_trivia_done_session_def
      demo_guess_won_session_def)

theorem finished_game_refuses_move_witness:
  "get_session demo_done_db ''s4'' = Some demo_trivia_done_session \<and>
   dict_get (get_state demo_trivia_done_session) ''current_index'' (JInt 0) = JInt 5 \<and>
   int (length TRIVIA_QUESTIONS) \<le> 5 \<and>
   play_trivia demo_done_db ''s4'' [38271, 27743] =
     (Inr [(''error'', JStr msg_no_more_questions), (''finished'', JBool True)], demo_done_db) \<and>
   get_session demo_done_db ''s5'' = Some demo_guess_won_session \<and>
   dict_get (get_state demo_guess_won_session) ''won'' JNull = JBool True \<and>
   play_guess_number demo_done_db ''s5'' 42 =
     (Inr [(''error'', JStr msg_game_finished), (''finished'', JBool True)], demo_done_db)"
proof -
  have t2: "s_game_id demo_trivia_done_session = ''trivia''"
    by (simp add: demo_trivia_done_session_def)
  have t3: "dict_get (get_state demo_trivia_done_session) ''questions'' (JList []) = JList TRIVIA_QUESTIONS"
    by (simp add: demo_trivia_done_get_state demo_trivia_done_state_def dict_get_def)
  have t4: "dict_get (get_state demo_trivia_done_session) ''current_index'' (JInt 0) = JInt 5"
    by (simp add: demo_trivia_done_get_state demo_trivia_done_state_def dict_get_def)
  have t5: "int (length TRIVIA_QUESTIONS) \<le> 5"
    by (simp add: TRIVIA_QUESTIONS_def)
  have g2: "s_game_id demo_guess_won_session = ''guess_number''"
    by (simp add: demo_guess_won_session_def)
  have g3: "dict_get (get_state demo_guess_won_session) ''won'' JNull = JBool True"
    by (simp add: demo_guess_won_get_state demo_guess_won_state_def dict_get_def)
  have g4: "dict_get (get_state demo_guess_won_session) ''guesses'' (JList []) = JList [JInt 50, JInt 20, JInt 42]"
    by (simp add: demo_guess_won_get_state demo_guess_won_state_def dict_get_def)
  have g5: "dict_get (get_state demo_guess_won_session) ''max_guesses'' (JInt 7) = JInt 7"
    by (simp add: demo_guess_won_get_state demo_guess_won_state_def dict_get_def)
  have trivia: "play_trivia demo_done_db ''s4'' [38271, 27743] =
     (Inr [(''error'', JStr msg_no_more_questions), (''finished'', JBool True)], demo_done_db)"
    using finished_game_refuses_move [of demo_done_db "''s4''" demo_trivia_done_session
        TRIVIA_QUESTIONS 5 "[38271, 27743]"]
      demo_get_trivia_done t2 t3 t4 t5 by blast
  have guess: "play_guess_number demo_done_db ''s5'' 42 =
     (Inr [(''error'', JStr msg_game_finished), (''finished'', JBool True)], demo_done_db)"
    using finished_game_refuses_move [of demo_done_db "''s5''" demo_guess_won_session
        _ _ _ True "[JInt 50, JInt 20, JInt 42]" 7 42]
      demo_get_guess_won g2 g3 g4 g5 by blast
  show ?thesis using demo_get_trivia_done t4 t5 trivia demo_get_guess_won g3 guess by blast
qed

section \<open>Ending a session\<close>

lemma end_session_found:
  assumes s: "get_session db sid = Some s"
    and us: "dict_get (get_state s) ''user_score'' (JInt 0) = JInt us" "int64 us"
    and cs: "dict_get (get_state s) ''companion_score'' (JInt 0) = JInt cs" "int64 cs"
    and rp: "column_int (dict_get (get_state s) ''rounds'' (dict_get (get_state s) ''current_index'' (JInt 0))) = Inr rp"
    and fresh: "new_id \<notin> set (map r_id (records db))"
  shows "end_session db sid new_id =
     (Inr (Some \<lparr>r_id = new_id, r_game_id = s_game_id s, r_companion_id = s_companion_id s,
                  r_session_id = Some sid, r_user_score = Some us, r_companion_score = Some cs,
                  r_rounds_played = rp,
                  r_winner = Some (if cs < us then ''user'' else if us < cs then ''companion'' else ''tie'')\<rparr>),
      (commit_session db (s\<lparr>s_is_active := False\<rparr>))
        \<lparr>records := records db @
           [\<lparr>r_id = new_id, r_game_id = s_game_id s, r_companion_id = s_companion_id s,
             r_session_id = Some sid, r_user_score = Some us, r_companion_score = Some cs,
             r_rounds_played = rp,
             r_winner = Some (if cs < us then ''user'' else if us < cs then ''companion'' else ''tie'')\<rparr>]\<rparr>)"
  using assms get_session_id [OF s]
  by (simp add: end_session_def winner_of_def Let_def)

lemma end_session_overflow:
  assumes "get_session db sid = Some s"
    and "dict_get (get_state s) ''user_score'' (JInt 0) = JInt us" and "\<not> int64 us"
    and "dict_get (get_state s) ''companion_score'' (JInt 0) = JInt cs"
  shows "end_session db sid new_id = (Inl OverflowError, db)"
  using assms by (simp add: end_session_def winner_of_def Let_def)

lemma rounds_source:
  assumes "map_of st ''rounds'' = None \<or> (\<exists>r. map_of st ''rounds'' = Some (JInt r) \<and> int64 r)"
    and "map_of st ''current_index'' = None \<or>
         (\<exists>c. map_of st ''current_index'' = Some (JInt c) \<and> int64 c)"
  shows "\<exists>rp. column_int (dict_get st ''rounds'' (dict_get st ''current_index'' (JInt 0))) = Inr (Some rp) \<and>
     (\<forall>r. map_of st ''rounds'' = Some (JInt r) \<longrightarrow> rp = r) \<and>
     (\<forall>c. map_of st ''rounds'' = None \<and> map_of st ''current_index'' = Some (JInt c) \<longrightarrow> rp = c) \<and>
     (map_of st ''rounds'' = None \<and> map_of st ''current_index'' = None \<longrightarrow> rp = 0)"
  using assms by (auto simp: dict_get_def int64_def)

text \<open>
  Claim C6. Ending an existing session whose scores are the integers \<open>us\<close> and \<open>cs\<close>
  (0 for an absent key), each within the 64 bits of an integer column like the round
  counters of the state, creates a record with winner "user" when \<open>us > cs\<close>, "companion"
  when \<open>cs > us\<close> and "tie" when they are equal; its \<^verbatim>\<open>rounds_played\<close> is the state's
  \<^verbatim>\<open>rounds\<close> when that key is present, else its \<^verbatim>\<open>current_index\<close> when that one is, else 0.
  The record carries the two scores, the game and the companion of the session and the
  id of the session, and it is the row added to the records.
\<close>

theorem end_session_record:
  assumes "get_session db sid = Some s"
    and "dict_get (get_state s) ''user_score'' (JInt 0) = JInt us" and "int64 us"
    and "dict_get (get_state s) ''companion_score'' (JInt 0) = JInt cs" and "int64 cs"
    and "map_of (get_state s) ''rounds'' = None \<or>
         (\<exists>r. map_of (get_state s) ''rounds'' = Some (JInt r) \<and> int64 r)"
    and "map_of (get_state s) ''current_index'' = None \<or>
         (\<exists>c. map_of (get_state s) ''current_index'' = Some (JInt c) \<and> int64 c)"
    and "new_id \<notin> set (map r_id (records db))"
  shows "\<exists>rec. end_session db sid new_id =
           (Inr (Some rec),
            (commit_session db (s\<lparr>s_is_active := False\<rparr>))\<lparr>records := records db @ [rec]\<rparr>) \<and>
         r_winner rec = Some (if cs < us then ''user'' else if us < cs then ''companion'' else ''tie'') \<and>
         r_user_score rec = Some us \<and> r_companion_score rec = Some cs \<and>
         r_session_id rec = Some sid \<and> r_game_id rec = s_game_id s \<and>
         r_companion_id rec = s_companion_id s \<and> r_id rec = new_id \<and>
         (\<forall>r. map_of (get_state s) ''rounds'' = Some (JInt r) \<longrightarrow> r_rounds_played rec = Some r) \<and>
         (\<forall>c. map_of (get_state s) ''rounds'' = None \<and>
               map_of (get_state s) ''current_index'' = Some (JInt c) \<longrightarrow> r_rounds_played rec = Some c) \<and>
         (map_of (get_state s) ''rounds'' = None \<and> map_of (get_state s) ''current_index'' = None \<longrightarrow>
            r_rounds_played rec = Some 0)"
proof -
  from rounds_source [OF assms(6,7)]
  obtain rp where rp: "column_int (dict_get (get_state s) ''rounds''
        (dict_get (get_state s) ''current_index'' (JInt 0))) = Inr (Some rp)"
    and src: "\<forall>r. map_of (get_state s) ''rounds'' = Some (JInt r) \<longrightarrow> rp = r"
      "\<forall>c. map_of (get_state s) ''rounds'' = None \<and>
            map_of (get_state s) ''current_index'' = Some (JInt c) \<longrightarrow> rp = c"
      "map_of (get_state s) ''rounds'' = None \<and> map_of (get_state s) ''current_index'' = None \<longrightarrow> rp = 0"
    by blast
  let ?rec = "\<lparr>r_id = new_id, r_game_id = s_game_id s, r_companion_id = s_companion_id s,
      r_session_id = Some sid, r_user_score = Some us, r_companion_score = Some cs,
      r_rounds_played = Some rp,
      r_winner = Some (if cs < us then ''user'' else if us < cs then ''companion'' else ''tie'')\<rparr>"
  have e: "end_session db sid new_id =
      (Inr (Some ?rec), (commit_session db (s\<lparr>s_is_active := False\<rparr>))\<lparr>records := records db @ [?rec]\<rparr>)"
    by (rule end_session_found [OF assms(1-5) rp assms(8)])
  show ?thesis
    by (rule exI [of _ ?rec]) (use e src in simp)
qed

theorem end_session_record_witness:
  "get_session demo_db ''s1'' = Some demo_word_session \<and>
   dict_get (get_state demo_word_session) ''user_score'' (JInt 0) = JInt 1 \<and>
   dict_get (get_state demo_word_session) ''companion_score'' (JInt 0) = JInt 0 \<and>
   int64 1 \<and> int64 0 \<and>
   map_of (get_state demo_word_session) ''rounds'' = Some (JInt 1) \<and>
   ''r1'' \<notin> set (map r_id (records demo_db)) \<and>
   (\<exists>rec. fst (end_session demo_db ''s1'' ''r1'') = Inr (Some rec) \<and>
      r_winner rec = Some ''user'' \<and> r_rounds_played rec = Some 1 \<and>
      r_user_score rec = Some 1 \<and> r_companion_score rec = Some 0 \<and>
      r_session_id rec = Some ''s1'') \<and>
   get_session demo_db ''s2'' = Some demo_trivia_session \<and>
   map_of (get_state demo_trivia_session) ''rounds'' = None \<and>
   map_of (get_state demo_trivia_session) ''current_index'' = Some (JInt 0) \<and>
   (\<exists>rec. fst (end_session demo_db ''s2'' ''r1'') = Inr (Some rec) \<and>
      r_winner rec = Some ''tie'' \<and> r_rounds_played rec = Some 0) \<and>
   get_session demo_db ''s3'' = Some demo_guess_session \<and>
   map_of (get_state demo_guess_session) ''rounds'' = None \<and>
   map_of (get_state demo_guess_session) ''current_index'' = None \<and>
   (\<exists>rec. fst (end_session demo_db ''s3'' ''r1'') = Inr (Some rec) \<and>
      r_winner rec = Some ''tie'' \<and> r_rounds_played rec = Some 0)"
proof -
  have fresh: "''r1'' \<notin> set (map r_id (records demo_db))"
    by (simp add: demo_db_def)
  have in64: "int64 0" "int64 1"
    by (simp_all add: int64_def)
  have w: "dict_get (get_state demo_word_session) ''user_score'' (JInt 0) = JInt 1"
      "dict_get (get_state demo_word_session) ''companion_score'' (JInt 0) = JInt 0"
      "map_of (get_state demo_word_session) ''rounds'' = Some (JInt 1)"
      "map_of (get_state demo_word_session) ''current_index'' = None"
    by (simp_all add: demo_word_get_state demo_word_state_def dict_get_def)
  have t: "dict_get (get_state demo_trivia_session) ''user_score'' (JInt 0) = JInt 0"
      "dict_get (get_state demo_trivia_session) ''companion_score'' (JInt 0) = JInt 0"
      "map_of (get_state demo_trivia_session) ''rounds'' = None"
      "map_of (get_state demo_trivia_session) ''current_index'' = Some (JInt 0)"
    by (simp_all add: demo_trivia_get_state demo_trivia_state_def get_initial_state_def dict_get_def)
  have g: "dict_get (get_state demo_guess_session) ''user_score'' (JInt 0) = JInt 0"
      "dict_get (get_state demo_guess_session) ''companion_score'' (JInt 0) = JInt 0"
      "map_of (get_state demo_guess_session) ''rounds'' = None"
      "map_of (get_state demo_guess_session) ''current_index'' = None"
    by (simp_all add: demo_guess_get_state demo_guess_state_def dict_get_def)
  have a: "\<exists>rec. fst (end_session demo_db ''s1'' ''r1'') = Inr (Some rec) \<and>
      r_winner rec = Some ''user'' \<and> r_rounds_played rec = Some 1 \<and>
      r_user_score rec = Some 1 \<and> r_companion_score rec = Some 0 \<and>
      r_session_id rec = Some ''s1''"
    using end_session_record [OF demo_get_word w(1) in64(2) w(2) in64(1) _ _ fresh] w(3,4) in64 by auto
  have b: "\<exists>rec. fst (end_session demo_db ''s2'' ''r1'') = Inr (Some rec) \<and>
      r_winner rec = Some ''tie'' \<and> r_rounds_played rec = Some 0"
    using end_session_record [OF demo_get_trivia t(1) in64(1) t(2) in64(1) _ _ fresh] t(3,4) in64 by auto
  have c: "\<exists>rec. fst (end_session demo_db ''s3'' ''r1'') = Inr (Some rec) \<and>
      r_winner rec = Some ''tie'' \<and> r_rounds_played rec = Some 0"
    using end_session_record [OF demo_get_guess g(1) in64(1) g(2) in64(1) _ _ fresh] g(3,4) in64 by auto
  show ?thesis
    using demo_get_word w(1,2,3) in64 fresh a demo_get_trivia t(3,4) b demo_get_guess g(3,4) c
    by blast
qed

section \<open>Playing against an ended or a wrong session\<close>

lemma get_session_records_update: "get_session (db\<lparr>records := rs\<rparr>) sid = get_session db sid"
  by (simp add: get_session_def)

lemma end_session_SomeD:
  assumes "end_session db sid new_id = (Inr (Some rec), db')"
  shows "\<exists>s. get_session db sid = Some s \<and>
     db' = (commit_session db (s\<lparr>s_is_active := False\<rparr>))\<lparr>records := records db @ [rec]\<rparr>"
  using assms
  by (auto simp: end_session_def Let_def split: option.splits sum.splits if_splits)

lemma get_session_after_end:
  assumes "get_session db sid = Some s"
  shows "get_session ((commit_session db (s\<lparr>s_is_active := False\<rparr>))\<lparr>records := rs\<rparr>) sid =
     Some (s\<lparr>s_is_active := False\<rparr>)"
  using assms get_session_id [OF assms]
  by (simp add: get_session_records_update get_session_commit)

lemma play_same_session:
  assumes "get_session db sid = Some s" and "get_session db' sid = Some s'"
    and "s_game_id s' = s_game_id s" and "s_state s' = s_state s"
  shows "fst (play move game db' sid a) = fst (play move game db sid a) \<and>
     map_option s_state (get_session (snd (play move game db' sid a)) sid) =
     map_option s_state (get_session (snd (play move game db sid a)) sid)"
proof -
  have gs: "get_state s' = get_state s"
    using assms(4) by (simp add: get_state_def)
  show ?thesis
  proof (cases "move (get_state s) a")
    case (Pair res kept)
    show ?thesis
    proof (cases kept)
      case None
      with Pair assms gs show ?thesis by (simp add: play_def)
    next
      case (Some st')
      have "get_session (commit_session db (set_state s st')) sid = Some (set_state s st')"
        by (rule get_session_set_state [OF assms(1)])
      moreover have "get_session (commit_session db' (set_state s' st')) sid = Some (set_state s' st')"
        by (rule get_session_set_state [OF assms(2)])
      ultimately show ?thesis using Pair Some assms gs
        by (simp add: play_def commit_state_def set_state_def)
    qed
  qed
qed

text \<open>
  Claim C1, as amended. After \<^verbatim>\<open>end_session\<close> has succeeded the session is fetched with
  \<^verbatim>\<open>is_active\<close> = false. The three play methods never read \<^verbatim>\<open>is_active\<close>: a play call
  against the ended session returns the result, and stores the state, that the same call
  returns and stores on the session before it was ended.
\<close>

theorem play_after_end_session:
  assumes "end_session db sid new_id = (Inr (Some rec), db')"
  shows "(\<exists>s'. get_session db' sid = Some s' \<and> \<not> s_is_active s') \<and>
     fst (play_word_chain db' sid word) = fst (play_word_chain db sid word) \<and>
     map_option s_state (get_session (snd (play_word_chain db' sid word)) sid) =
       map_option s_state (get_session (snd (play_word_chain db sid word)) sid) \<and>
     fst (play_trivia db' sid answer) = fst (play_trivia db sid answer) \<and>
     map_option s_state (get_session (snd (play_trivia db' sid answer)) sid) =
       map_option s_state (get_session (snd (play_trivia db sid answer)) sid) \<and>
     fst (play_guess_number db' sid guess) = fst (play_guess_number db sid guess) \<and>
     map_option s_state (get_session (snd (play_guess_number db' sid guess)) sid) =
       map_option s_state (get_session (snd (play_guess_number db sid guess)) sid)"
proof -
  from end_session_SomeD [OF assms] obtain s where s: "get_session db sid = Some s"
    and db': "db' = (commit_session db (s\<lparr>s_is_active := False\<rparr>))\<lparr>records := records db @ [rec]\<rparr>"
    by blast
  have s': "get_session db' sid = Some (s\<lparr>s_is_active := False\<rparr>)"
    unfolding db' by (rule get_session_after_end [OF s])
  have same: "s_game_id (s\<lparr>s_is_active := False\<rparr>) = s_game_id s"
      "s_state (s\<lparr>s_is_active := False\<rparr>) = s_state s"
    by simp_all
  note p = play_same_session [OF s s' same]
  show ?thesis
    unfolding play_word_chain_def play_trivia_def play_guess_number_def
    using s' p [of word_chain_move "''word_chain''" word] p [of trivia_move "''trivia''" answer]
      p [of guess_number_move "''guess_number''" guess]
    by simp
qed

lemma demo_word_move:
  "word_chain_move demo_word_state [40560, 20987, 38271, 31354] =
     (Inr [(''valid'', JBool True), (''word'', JStr [40560, 20987, 38271, 31354]),
           (''state'', JObj [(''current_word'', JStr [40560, 20987, 38271, 31354]),
              (''words_used'', JList [JStr [29483, 22836, 40560], JStr [40560, 20987, 38271, 31354]]),
              (''user_score'', JInt 2), (''companion_score'', JInt 0),
              (''turn'', JStr (ascii ''companion'')), (''rounds'', JInt 2)])],
      Some [(''current_word'', JStr [40560, 20987, 38271, 31354]),
            (''words_used'', JList [JStr [29483, 22836, 40560], JStr [40560, 20987, 38271, 31354]]),
            (''user_score'', JInt 2), (''companion_score'', JInt 0),
            (''turn'', JStr (ascii ''companion'')), (''rounds'', JInt 2)])"
  by (simp add: word_chain_move_def demo_word_state_def dict_get_def dict_item_def dict_set_def Let_def)

lemma demo_end_word:
  "end_session demo_db ''s1'' ''r1'' =
     (Inr (Some \<lparr>r_id = ''r1'', r_game_id = ''word_chain'', r_companion_id = ''c1'',
                  r_session_id = Some ''s1'', r_user_score = Some 1, r_companion_score = Some 0,
                  r_rounds_played = Some 1, r_winner = Some ''user''\<rparr>),
      (commit_session demo_db (demo_word_session\<lparr>s_is_active := False\<rparr>))
        \<lparr>records := [\<lparr>r_id = ''r1'', r_game_id = ''word_chain'', r_companion_id = ''c1'',
                  r_session_id = Some ''s1'', r_user_score = Some 1, r_companion_score = Some 0,
                  r_rounds_played = Some 1, r_winner = Some ''user''\<rparr>]\<rparr>)"
proof -
  have us: "dict_get (get_state demo_word_session) ''user_score'' (JInt 0) = JInt 1"
    and cs: "dict_get (get_state demo_word_session) ''companion_score'' (JInt 0) = JInt 0"
    and rp: "column_int (dict_get (get_state demo_word_session) ''rounds''
               (dict_get (get_state demo_word_session) ''current_index'' (JInt 0))) = Inr (Some 1)"
    and in64: "int64 1" "int64 0"
    by (simp_all add: demo_word_get_state demo_word_state_def dict_get_def int64_def)
  have fresh: "''r1'' \<notin> set (map r_id (records demo_db))"
    by (simp add: demo_db_def)
  show ?thesis
    using end_session_found [OF demo_get_word us in64(1) cs in64(2) rp fresh]
    by (simp add: demo_word_session_def demo_db_def)
qed

text \<open>
  Claim C1 as stated fails: the word chain session \<^verbatim>\<open>s1\<close> is ended, it is fetched with
  \<^verbatim>\<open>is_active\<close> = false, and the next word played against it is answered with status 200
  and \<^verbatim>\<open>valid\<close> = true, and the new state is stored.
\<close>

theorem play_after_end_counterexample:
  "fst (end_session demo_db ''s1'' ''r1'') =
     Inr (Some \<lparr>r_id = ''r1'', r_game_id = ''word_chain'', r_companion_id = ''c1'',
                 r_session_id = Some ''s1'', r_user_score = Some 1, r_companion_score = Some 0,
                 r_rounds_played = Some 1, r_winner = Some ''user''\<rparr>) \<and>
   map_option s_is_active (get_session (snd (end_session demo_db ''s1'' ''r1'')) ''s1'') = Some False \<and>
   fst (play_word_chain_route (snd (end_session demo_db ''s1'' ''r1'')) ''s1''
          [40560, 20987, 38271, 31354]) =
     Inr (Response
       [(''valid'', JBool True), (''word'', JStr [40560, 20987, 38271, 31354]),
        (''state'', JObj [(''current_word'', JStr [40560, 20987, 38271, 31354]),
           (''words_used'', JList [JStr [29483, 22836, 40560], JStr [40560, 20987, 38271, 31354]]),
           (''user_score'', JInt 2), (''companion_score'', JInt 0),
           (''turn'', JStr (ascii ''companion'')), (''rounds'', JInt 2)])]) \<and>
   map_option get_state
     (get_session (snd (play_word_chain_route (snd (end_session demo_db ''s1'' ''r1'')) ''s1''
          [40560, 20987, 38271, 31354])) ''s1'') =
     Some [(''current_word'', JStr [40560, 20987, 38271, 31354]),
           (''words_used'', JList [JStr [29483, 22836, 40560], JStr [40560, 20987, 38271, 31354]]),
           (''user_score'', JInt 2), (''companion_score'', JInt 0),
           (''turn'', JStr (ascii ''companion'')), (''rounds'', JInt 2)]"
proof -
  let ?rec = "\<lparr>r_id = ''r1'', r_game_id = ''word_chain'', r_companion_id = ''c1'',
                 r_session_id = Some ''s1'', r_user_score = Some 1, r_companion_score = Some 0,
                 r_rounds_played = Some 1, r_winner = Some ''user''\<rparr>"
  let ?ended = "demo_word_session\<lparr>s_is_active := False\<rparr>"
  let ?db = "(commit_session demo_db ?ended)\<lparr>records := [?rec]\<rparr>"
  let ?st = "[(''current_word'', JStr [40560, 20987, 38271, 31354]),
           (''words_used'', JList [JStr [29483, 22836, 40560], JStr [40560, 20987, 38271, 31354]]),
           (''user_score'', JInt 2), (''companion_score'', JInt 0),
           (''turn'', JStr (ascii ''companion'')), (''rounds'', JInt 2)]"
  let ?res = "[(''valid'', JBool True), (''word'', JStr [40560, 20987, 38271, 31354]),
        (''state'', JObj ?st)]"
  have g: "get_session ?db ''s1'' = Some ?ended"
    by (rule get_session_after_end [OF demo_get_word])
  have ge: "get_state ?ended = demo_word_state"
    using demo_word_get_state by (simp add: get_state_def)
  have m: "word_chain_move (get_state ?ended) [40560, 20987, 38271, 31354] = (Inr ?res, Some ?st)"
    using demo_word_move by (simp add: ge)
  have sto: "storable ?st"
    by (simp add: storable_def ascii_def scalar_def)
  have p: "play_word_chain ?db ''s1'' [40560, 20987, 38271, 31354] =
      (Inr ?res, commit_session ?db (set_state ?ended ?st))"
    unfolding play_word_chain_def
    by (rule play_stored [where move = word_chain_move, OF g _ m sto])
      (simp add: demo_word_session_def)
  have r: "play_word_chain_route ?db ''s1'' [40560, 20987, 38271, 31354] =
      (Inr (Response ?res), commit_session ?db (set_state ?ended ?st))"
    by (simp add: play_word_chain_route_def p has_key_def)
  have g2: "get_session (commit_session ?db (set_state ?ended ?st)) ''s1'' =
      Some (set_state ?ended ?st)"
    by (rule get_session_set_state [OF g])
  have g3: "get_state (set_state ?ended ?st) = ?st"
    by (rule get_state_set_state [OF sto])
  show ?thesis
    using g by (simp add: demo_end_word r g2 g3)
qed

theorem play_after_end_session_witness:
  "fst (end_session demo_db ''s1'' ''r1'') =
     Inr (Some \<lparr>r_id = ''r1'', r_game_id = ''word_chain'', r_companion_id = ''c1'',
                 r_session_id = Some ''s1'', r_user_score = Some 1, r_companion_score = Some 0,
                 r_rounds_played = Some 1, r_winner = Some ''user''\<rparr>) \<and>
   (\<exists>s'. get_session (snd (end_session demo_db ''s1'' ''r1'')) ''s1'' = Some s' \<and> \<not> s_is_active s') \<and>
   fst (play_word_chain (snd (end_session demo_db ''s1'' ''r1'')) ''s1'' [40560, 20987, 38271, 31354]) =
     fst (play_word_chain demo_db ''s1'' [40560, 20987, 38271, 31354]) \<and>
   map_option s_state (get_session (snd (play_word_chain (snd (end_session demo_db ''s1'' ''r1''))
       ''s1'' [40560, 20987, 38271, 31354])) ''s1'') =
     map_option s_state (get_session (snd (play_word_chain demo_db ''s1''
       [40560, 20987, 38271, 31354])) ''s1'')"
proof -
  have e: "end_session demo_db ''s1'' ''r1'' =
     (Inr (Some \<lparr>r_id = ''r1'', r_game_id = ''word_chain'', r_companion_id = ''c1'',
                 r_session_id = Some ''s1'', r_user_score = Some 1, r_companion_score = Some 0,
                 r_rounds_played = Some 1, r_winner = Some ''user''\<rparr>),
      snd (end_session demo_db ''s1'' ''r1''))"
    by (simp add: demo_end_word)
  have f: "fst (end_session demo_db ''s1'' ''r1'') =
     Inr (Some \<lparr>r_id = ''r1'', r_game_id = ''word_chain'', r_companion_id = ''c1'',
                 r_session_id = Some ''s1'', r_user_score = Some 1, r_companion_score = Some 0,
                 r_rounds_played = Some 1, r_winner = Some ''user''\<rparr>)"
    by (simp add: demo_end_word)
  from play_after_end_session [OF e, of "[40560, 20987, 38271, 31354]"] f
  show ?thesis by blast
qed

lemma play_invalid:
  assumes "get_session db sid = None \<or> (\<exists>s. get_session db sid = Some s \<and> s_game_id s \<noteq> game)"
  shows "play move game db sid a = (Inr invalid_session, db)"
  using assms by (auto simp: play_def)

lemma raise_400_invalid:
  "raise_400 invalid_session = Inr (HTTPException 400 (JStr msg_invalid_session))"
  by (simp add: raise_400_def invalid_session_def dict_item_def)

lemma invalid_session_keys:
  "has_key ''error'' invalid_session" "truthy (dict_get invalid_session ''valid'' (JBool True))"
  "\<not> truthy (dict_get invalid_session ''finished'' JNull)"
  by (simp_all add: has_key_def invalid_session_def dict_get_def)

text \<open>
  Claim C2 as stated fails: a word played against a session id that no row has is
  answered with status 400 and the detail "Invalid session", not with 404, and a word
  played against the trivia session \<^verbatim>\<open>s2\<close> gets the very same answer.
\<close>

theorem play_not_found_counterexample:
  "get_session demo_db ''nope'' = None \<and>
   play_word_chain_route demo_db ''nope'' [24320, 24515] =
     (Inr (HTTPException 400 (JStr msg_invalid_session)), demo_db) \<and>
   map_option s_game_id (get_session demo_db ''s2'') = Some ''trivia'' \<and>
   play_word_chain_route demo_db ''s2'' [24320, 24515] =
     (Inr (HTTPException 400 (JStr msg_invalid_session)), demo_db)"
proof -
  have n: "get_session demo_db ''nope'' = None"
    by (simp add: get_session_def demo_db_def demo_word_session_def demo_trivia_session_def
        demo_guess_session_def)
  have t: "s_game_id demo_trivia_session \<noteq> ''word_chain''"
    by (simp add: demo_trivia_session_def)
  have a: "play_word_chain demo_db ''nope'' [24320, 24515] = (Inr invalid_session, demo_db)"
    unfolding play_word_chain_def using n by (simp add: play_invalid)
  have b: "play_word_chain demo_db ''s2'' [24320, 24515] = (Inr invalid_session, demo_db)"
    unfolding play_word_chain_def using demo_get_trivia t by (simp add: play_invalid)
  show ?thesis
    using n demo_get_trivia
    by (simp add: play_word_chain_route_def a b invalid_session_keys raise_400_invalid
        demo_trivia_session_def)
qed

text \<open>
  Claim C2, as amended. On each of the three play routes, a session id that does not
  resolve and a session of another game get the same answer: status 400 with the detail
  "Invalid session", and the database stays as it is. The two failures cannot be told
  apart by the caller, and no play route answers 404.
\<close>

theorem play_invalid_session_400:
  "(get_session db sid = None \<or> (\<exists>s. get_session db sid = Some s \<and> s_game_id s \<noteq> ''word_chain'') \<longrightarrow>
      play_word_chain_route db sid word =
        (Inr (HTTPException 400 (JStr msg_invalid_session)), db)) \<and>
   (get_session db sid = None \<or> (\<exists>s. get_session db sid = Some s \<and> s_game_id s \<noteq> ''trivia'') \<longrightarrow>
      play_trivia_route db sid answer =
        (Inr (HTTPException 400 (JStr msg_invalid_session)), db)) \<and>
   (get_session db sid = None \<or> (\<exists>s. get_session db sid = Some s \<and> s_game_id s \<noteq> ''guess_number'') \<longrightarrow>
      play_guess_number_route db sid guess =
        (Inr (HTTPException 400 (JStr msg_invalid_session)), db))"
  by (simp add: play_word_chain_route_def play_trivia_route_def play_guess_number_route_def
      play_word_chain_def play_trivia_def play_guess_number_def play_invalid
      invalid_session_keys raise_400_invalid)

theorem play_invalid_session_400_witness:
  "get_session demo_db ''missing'' = None \<and>
   play_trivia_route demo_db ''missing'' [38271, 27743] =
     (Inr (HTTPException 400 (JStr msg_invalid_session)), demo_db) \<and>
   get_session demo_db ''s1'' = Some demo_word_session \<and>
   s_game_id demo_word_session \<noteq> ''guess_number'' \<and>
   play_guess_number_route demo_db ''s1'' 42 =
     (Inr (HTTPException 400 (JStr msg_invalid_session)), demo_db)"
proof -
  have n: "get_session demo_db ''missing'' = None"
    by (simp add: get_session_def demo_db_def demo_word_session_def demo_trivia_session_def
        demo_guess_session_def)
  have w: "s_game_id demo_word_session \<noteq> ''guess_number''"
    by (simp add: demo_word_session_def)
  have a: "play_trivia_route demo_db ''missing'' [38271, 27743] =
     (Inr (HTTPException 400 (JStr msg_invalid_session)), demo_db)"
    using play_invalid_session_400 [of demo_db "''missing''"] n by blast
  have b: "play_guess_number_route demo_db ''s1'' 42 =
     (Inr (HTTPException 400 (JStr msg_invalid_session)), demo_db)"
    using play_invalid_session_400 [of demo_db "''s1''"] demo_get_word w by blast
  show ?thesis using n a demo_get_word w b by blast
qed

section \<open>Starting a session\<close>

lemma found_unique:
  assumes "distinct (map s_id xs)" and "find (\<lambda>s. s_id s = sid) xs = Some s"
    and "x \<in> set xs" and "s_id x = sid"
  shows "x = s"
proof -
  from assms(2) have "s \<in> set xs" "s_id s = sid"
    by (auto simp: find_Some_iff)
  with assms(1,3,4) show ?thesis
    by (metis distinct_map inj_onD)
qed

lemma commit_session_pointwise:
  assumes "distinct (map s_id (sessions db))" and "get_session db sid = Some s"
    and "\<And>x. s_id (f x) = s_id x"
  shows "sessions (commit_session db (f s)) = map (\<lambda>x. if s_id x = sid then f x else x) (sessions db)"
proof -
  have sid: "s_id s = sid" by (rule get_session_id [OF assms(2)])
  have "map (\<lambda>x. if s_id x = s_id (f s) then f s else x) (sessions db) =
        map (\<lambda>x. if s_id x = sid then f x else x) (sessions db)"
  proof (rule map_cong [OF refl])
    fix x assume x: "x \<in> set (sessions db)"
    show "(if s_id x = s_id (f s) then f s else x) = (if s_id x = sid then f x else x)"
      using found_unique [OF assms(1) assms(2) [unfolded get_session_def] x] assms(3) sid
      by auto
  qed
  then show ?thesis by (simp add: commit_session_def)
qed

lemma table_ok_state:
  assumes "table_ok db" and "get_session db sid = Some s"
  shows "table_ok (commit_session db (set_state s st'))"
proof -
  have eq: "sessions (commit_session db (set_state s st')) =
      map (\<lambda>x. if s_id x = sid then set_state x st' else x) (sessions db)"
    using assms by (intro commit_session_pointwise [where f = "\<lambda>x. set_state x st'"])
      (simp_all add: table_ok_def set_state_fields)
  have ids: "map s_id (map (\<lambda>x. if s_id x = sid then set_state x st' else x) xs) = map s_id xs" for xs
    by (induction xs) (auto simp: set_state_fields)
  have act: "map (\<lambda>s. (s_companion_id s, s_game_id s))
        (filter s_is_active (map (\<lambda>x. if s_id x = sid then set_state x st' else x) xs)) =
      map (\<lambda>s. (s_companion_id s, s_game_id s)) (filter s_is_active xs)" for xs
    by (induction xs) (auto simp: set_state_fields)
  show ?thesis using assms(1) by (simp add: table_ok_def active_pairs_def eq ids act del: map_map)
qed

lemma table_ok_play:
  assumes "table_ok db"
  shows "table_ok (snd (play move game db sid a))"
proof (cases "get_session db sid")
  case None
  then show ?thesis using assms by (simp add: play_def)
next
  case (Some s)
  then show ?thesis using assms table_ok_state [OF assms Some]
    by (auto simp: play_def commit_state_def split: prod.splits option.splits)
qed

lemma snd_play_word_chain_route: "snd (play_word_chain_route db sid w) = snd (play_word_chain db sid w)"
  by (auto simp: play_word_chain_route_def split: prod.splits sum.splits)

lemma snd_play_trivia_route: "snd (play_trivia_route db sid a) = snd (play_trivia db sid a)"
  by (auto simp: play_trivia_route_def split: prod.splits sum.splits)

lemma snd_play_guess_number_route: "snd (play_guess_number_route db sid g) = snd (play_guess_number db sid g)"
  by (auto simp: play_guess_number_route_def split: prod.splits sum.splits)

lemma table_ok_end:
  assumes "table_ok db" and "get_session db sid = Some s"
  shows "table_ok ((commit_session db (s\<lparr>s_is_active := False\<rparr>))\<lparr>records := rs\<rparr>)"
proof -
  have eq: "sessions (commit_session db (s\<lparr>s_is_active := False\<rparr>)) =
      map (\<lambda>x. if s_id x = sid then x\<lparr>s_is_active := False\<rparr> else x) (sessions db)"
    using assms by (intro commit_session_pointwise [where f = "\<lambda>x. x\<lparr>s_is_active := False\<rparr>"])
      (simp_all add: table_ok_def)
  have ids: "map s_id (map (\<lambda>x. if s_id x = sid then x\<lparr>s_is_active := False\<rparr> else x) xs) = map s_id xs" for xs
    by (induction xs) auto
  have act: "filter s_is_active (map (\<lambda>x. if s_id x = sid then x\<lparr>s_is_active := False\<rparr> else x) xs) =
      filter (\<lambda>x. s_id x \<noteq> sid) (filter s_is_active xs)" for xs
    by (induction xs) auto
  have "distinct (map (\<lambda>s. (s_companion_id s, s_game_id s))
      (filter (\<lambda>x. s_id x \<noteq> sid) (filter s_is_active (sessions db))))"
    using assms(1) by (simp add: table_ok_def active_pairs_def distinct_map_filter del: filter_filter)
  then show ?thesis using assms(1)
    by (simp add: table_ok_def active_pairs_def eq ids act del: map_map)
qed

lemma snd_end_session_route: "snd (end_session_route db sid nid) = snd (end_session db sid nid)"
  by (auto simp: end_session_route_def split: prod.splits sum.splits option.splits)

lemma table_ok_end_session:
  assumes "table_ok db"
  shows "table_ok (snd (end_session db sid nid))"
proof (cases "get_session db sid")
  case None
  then show ?thesis using assms by (simp add: end_session_def)
next
  case (Some s)
  then show ?thesis using assms table_ok_end [OF assms Some]
    by (auto simp: end_session_def Let_def split: prod.splits sum.splits option.splits)
qed

lemma table_ok_create:
  assumes "table_ok db"
  shows "table_ok (snd (create_session_route db g c nid smp t))"
proof (cases "get_active_session db c g")
  case (Some existing)
  then show ?thesis using assms by (simp add: create_session_route_def)
next
  case None
  then have "(c, g) \<notin> set (active_pairs db)"
    by (auto simp: get_active_session_def active_pairs_def find_None_iff)
  then show ?thesis using assms None
    by (auto simp: create_session_route_def create_session_def Let_def table_ok_def active_pairs_def)
qed

lemma table_ok_handle: "table_ok db \<Longrightarrow> table_ok (handle db req)"
  by (cases req)
    (simp_all add: table_ok_create snd_end_session_route table_ok_end_session
      snd_play_word_chain_route snd_play_trivia_route snd_play_guess_number_route
      play_word_chain_def play_trivia_def play_guess_number_def table_ok_play)

lemma table_ok_foldl: "table_ok db \<Longrightarrow> table_ok (foldl handle db reqs)"
  by (induction reqs arbitrary: db) (simp_all add: table_ok_handle)

lemma table_ok_serve: "table_ok (serve reqs)"
  unfolding serve_def by (rule table_ok_foldl) (simp add: table_ok_def empty_db_def active_pairs_def)

lemma distinct_map_count:
  "distinct (map f ys) \<Longrightarrow> length (filter (\<lambda>y. f y = p) ys) \<le> 1"
proof (induction ys)
  case Nil
  then show ?case by simp
next
  case (Cons y ys)
  show ?case
  proof (cases "f y = p")
    case True
    from Cons.prems True have "p \<notin> f ` set ys" by simp
    then have "\<forall>z \<in> set ys. f z \<noteq> p" by blast
    then have "filter (\<lambda>y. f y = p) ys = []" by (simp add: filter_empty_conv)
    with True show ?thesis by simp
  next
    case False
    with Cons show ?thesis by simp
  qed
qed

lemma table_ok_at_most_one:
  assumes "table_ok db"
  shows "length (filter (\<lambda>s. s_companion_id s = c \<and> s_game_id s = g \<and> s_is_active s) (sessions db)) \<le> 1"
proof -
  have "filter (\<lambda>s. s_companion_id s = c \<and> s_game_id s = g \<and> s_is_active s) (sessions db) =
      filter (\<lambda>s. (s_companion_id s, s_game_id s) = (c, g)) (filter s_is_active (sessions db))"
    by (auto intro: filter_cong)
  moreover have "distinct (map (\<lambda>s. (s_companion_id s, s_game_id s)) (filter s_is_active (sessions db)))"
    using assms by (simp add: table_ok_def active_pairs_def)
  ultimately show ?thesis
    using distinct_map_count [of "\<lambda>s. (s_companion_id s, s_game_id s)" "filter s_is_active (sessions db)" "(c, g)"]
    by simp
qed

lemma find_append_none: "find P xs = None \<Longrightarrow> find P (xs @ ys) = find P ys"
  by (induction xs) (auto split: if_splits)

lemma create_route_existing:
  "get_active_session db c g = Some s \<Longrightarrow> create_session_route db g c nid smp t = (Inr s, db)"
  by (simp add: create_session_route_def)

lemma create_route_twice:
  assumes "create_session_route db g c id1 smp1 t1 = (Inr s1, db1)"
  shows "get_active_session db1 c g = Some s1"
proof (cases "get_active_session db c g")
  case (Some existing)
  with assms show ?thesis by (simp add: create_session_route_def)
next
  case None
  with assms have new: "s1 = \<lparr>s_id = id1, s_game_id = g, s_companion_id = c,
        s_state = to_stored (get_initial_state g smp1 t1), s_is_active = True\<rparr>"
    and db1: "db1 = db\<lparr>sessions := sessions db @ [s1]\<rparr>"
    by (auto simp: create_session_route_def create_session_def Let_def split: if_splits)
  from None have "find (\<lambda>s. s_companion_id s = c \<and> s_game_id s = g \<and> s_is_active s) (sessions db) = None"
    by (simp add: get_active_session_def)
  then have "find (\<lambda>s. s_companion_id s = c \<and> s_game_id s = g \<and> s_is_active s) (sessions db @ [s1]) = Some s1"
    using new by (simp add: find_append_none)
  then show ?thesis by (simp add: get_active_session_def db1)
qed

lemma get_active_session_sound:
  assumes "get_active_session db c g = Some s"
  shows "s \<in> set (sessions db) \<and> s_companion_id s = c \<and> s_game_id s = g \<and> s_is_active s"
  using assms by (auto simp: get_active_session_def find_Some_iff)

lemma get_active_session_complete:
  assumes "\<exists>x \<in> set (sessions db). s_companion_id x = c \<and> s_game_id x = g \<and> s_is_active x"
  shows "\<exists>s. get_active_session db c g = Some s"
  using assms by (cases "get_active_session db c g") (auto simp: get_active_session_def find_None_iff)

text \<open>
  Claim C7. When the table has an active session of the companion \<open>c\<close> and the game \<open>g\<close>,
  the create route returns a row of the table that is active and of that companion and
  game, and leaves the database as it is. A second call, right after a call that returned
  the session \<open>s1\<close> and left the database \<open>db1\<close>, returns \<open>s1\<close> again, with the same id, and
  leaves \<open>db1\<close>; \<open>s1\<close> is a row of \<open>db1\<close>, active and of the companion and the game. And
  after any run of requests from the empty tables, at most one session of a companion and
  a game is active.
\<close>

theorem start_session_idempotent:
  "((\<exists>x \<in> set (sessions db). s_companion_id x = c \<and> s_game_id x = g \<and> s_is_active x) \<longrightarrow>
      (\<exists>s. create_session_route db g c new_id sample target = (Inr s, db) \<and>
           s \<in> set (sessions db) \<and> s_companion_id s = c \<and> s_game_id s = g \<and> s_is_active s)) \<and>
   (create_session_route db g c id1 sample1 target1 = (Inr s1, db1) \<longrightarrow>
      create_session_route db1 g c id2 sample2 target2 = (Inr s1, db1) \<and>
      s1 \<in> set (sessions db1) \<and> s_companion_id s1 = c \<and> s_game_id s1 = g \<and> s_is_active s1) \<and>
   length (filter (\<lambda>s. s_companion_id s = c \<and> s_game_id s = g \<and> s_is_active s)
             (sessions (serve reqs))) \<le> 1"
proof (intro conjI impI)
  assume "\<exists>x \<in> set (sessions db). s_companion_id x = c \<and> s_game_id x = g \<and> s_is_active x"
  then obtain s where s: "get_active_session db c g = Some s"
    using get_active_session_complete by blast
  have "create_session_route db g c new_id sample target = (Inr s, db)"
    by (rule create_route_existing [OF s])
  with get_active_session_sound [OF s]
  show "\<exists>s. create_session_route db g c new_id sample target = (Inr s, db) \<and>
           s \<in> set (sessions db) \<and> s_companion_id s = c \<and> s_game_id s = g \<and> s_is_active s"
    by blast
next
  assume a: "create_session_route db g c id1 sample1 target1 = (Inr s1, db1)"
  then have s1: "get_active_session db1 c g = Some s1"
    by (rule create_route_twice)
  then show "create_session_route db1 g c id2 sample2 target2 = (Inr s1, db1)"
    by (rule create_route_existing)
  from get_active_session_sound [OF s1]
  show "s1 \<in> set (sessions db1)" "s_companion_id s1 = c" "s_game_id s1 = g" "s_is_active s1"
    by simp_all
next
  show "length (filter (\<lambda>s. s_companion_id s = c \<and> s_game_id s = g \<and> s_is_active s)
             (sessions (serve reqs))) \<le> 1"
    by (rule table_ok_at_most_one [OF table_ok_serve])
qed

theorem start_session_idempotent_witness:
  "create_session_route empty_db ''guess_number'' ''c1'' ''a1'' [] 42 =
     (Inr \<lparr>s_id = ''a1'', s_game_id = ''guess_number'', s_companion_id = ''c1'',
            s_state = to_stored (get_initial_state ''guess_number'' [] 42), s_is_active = True\<rparr>,
      \<lparr>sessions = [\<lparr>s_id = ''a1'', s_game_id = ''guess_number'', s_companion_id = ''c1'',
            s_state = to_stored (get_initial_state ''guess_number'' [] 42), s_is_active = True\<rparr>],
        records = []\<rparr>) \<and>
   create_session_route
      \<lparr>sessions = [\<lparr>s_id = ''a1'', s_game_id = ''guess_number'', s_companion_id = ''c1'',
            s_state = to_stored (get_initial_state ''guess_number'' [] 42), s_is_active = True\<rparr>],
        records = []\<rparr> ''guess_number'' ''c1'' ''a2'' [] 77 =
     (Inr \<lparr>s_id = ''a1'', s_game_id = ''guess_number'', s_companion_id = ''c1'',
            s_state = to_stored (get_initial_state ''guess_number'' [] 42), s_is_active = True\<rparr>,
      \<lparr>sessions = [\<lparr>s_id = ''a1'', s_game_id = ''guess_number'', s_companion_id = ''c1'',
            s_state = to_stored (get_initial_state ''guess_number'' [] 42), s_is_active = True\<rparr>],
        records = []\<rparr>) \<and>
   (\<exists>s. create_session_route demo_db ''trivia'' ''c1'' ''a3'' TRIVIA_QUESTIONS 7 = (Inr s, demo_db) \<and>
        s \<in> set (sessions demo_db) \<and> s_companion_id s = ''c1'' \<and> s_game_id s = ''trivia'' \<and>
        s_is_active s) \<and>
   length (filter (\<lambda>s. s_companion_id s = ''c1'' \<and> s_game_id s = ''guess_number'' \<and> s_is_active s)
     (sessions (serve [CreateSession ''guess_number'' ''c1'' ''a1'' [] 42,
                       CreateSession ''guess_number'' ''c1'' ''a2'' [] 77,
                       PlayGuessNumber ''a1'' 50]))) \<le> 1"
proof -
  have first: "create_session_route empty_db ''guess_number'' ''c1'' ''a1'' [] 42 =
     (Inr \<lparr>s_id = ''a1'', s_game_id = ''guess_number'', s_companion_id = ''c1'',
            s_state = to_stored (get_initial_state ''guess_number'' [] 42), s_is_active = True\<rparr>,
      \<lparr>sessions = [\<lparr>s_id = ''a1'', s_game_id = ''guess_number'', s_companion_id = ''c1'',
            s_state = to_stored (get_initial_state ''guess_number'' [] 42), s_is_active = True\<rparr>],
        records = []\<rparr>)"
    by (simp add: create_session_route_def create_session_def get_active_session_def
        empty_db_def Let_def storable_def get_initial_state_def)
  note idem = start_session_idempotent [where c = "''c1''" and g = "''guess_number''"]
  from idem [where db = empty_db and ?id1.0 = "''a1''" and ?sample1.0 = "[]" and ?target1.0 = 42
      and ?id2.0 = "''a2''" and ?sample2.0 = "[]" and ?target2.0 = 77] first
  have second: "create_session_route
      \<lparr>sessions = [\<lparr>s_id = ''a1'', s_game_id = ''guess_number'', s_companion_id = ''c1'',
            s_state = to_stored (get_initial_state ''guess_number'' [] 42), s_is_active = True\<rparr>],
        records = []\<rparr> ''guess_number'' ''c1'' ''a2'' [] 77 =
     (Inr \<lparr>s_id = ''a1'', s_game_id = ''guess_number'', s_companion_id = ''c1'',
            s_state = to_stored (get_initial_state ''guess_number'' [] 42), s_is_active = True\<rparr>,
      \<lparr>sessions = [\<lparr>s_id = ''a1'', s_game_id = ''guess_number'', s_companion_id = ''c1'',
            s_state = to_stored (get_initial_state ''guess_number'' [] 42), s_is_active = True\<rparr>],
        records = []\<rparr>)"
    by blast
  have ex: "\<exists>x \<in> set (sessions demo_db).
      s_companion_id x = ''c1'' \<and> s_game_id x = ''trivia'' \<and> s_is_active x"
    by (simp add: demo_db_def demo_trivia_session_def)
  from start_session_idempotent [where db = demo_db and c = "''c1''" and g = "''trivia''"
      and new_id = "''a3''" and sample = TRIVIA_QUESTIONS and target = 7] ex
  have existing: "\<exists>s. create_session_route demo_db ''trivia'' ''c1'' ''a3'' TRIVIA_QUESTIONS 7 = (Inr s, demo_db) \<and>
        s \<in> set (sessions demo_db) \<and> s_companion_id s = ''c1'' \<and> s_game_id s = ''trivia'' \<and>
        s_is_active s"
    by blast
  from idem have third: "length (filter (\<lambda>s. s_companion_id s = ''c1'' \<and> s_game_id s = ''guess_number'' \<and> s_is_active s)
     (sessions (serve [CreateSession ''guess_number'' ''c1'' ''a1'' [] 42,
                       CreateSession ''guess_number'' ''c1'' ''a2'' [] 77,
                       PlayGuessNumber ''a1'' 50]))) \<le> 1"
    by blast
  from first second existing third show ?thesis by blast
qed

section \<open>Statistics over the records\<close>

lemma stats_loop_total_games: "total_games (stats_loop rs st) = total_games st"
  by (induction rs arbitrary: st) (simp_all add: stats_step_def Let_def)

lemma stats_loop_user_score:
  "total_user_score (stats_loop rs st) = total_user_score st + sum_list (map (\<lambda>r. or0 (r_user_score r)) rs)"
  by (induction rs arbitrary: st) (simp_all add: stats_step_def Let_def)

lemma stats_loop_companion_score:
  "total_companion_score (stats_loop rs st) =
     total_companion_score st + sum_list (map (\<lambda>r. or0 (r_companion_score r)) rs)"
  by (induction rs arbitrary: st) (simp_all add: stats_step_def Let_def)

lemma stats_loop_wins:
  "wins (stats_loop rs st) = wins st + int (length (filter (\<lambda>r. r_winner r = Some ''user'') rs))"
  by (induction rs arbitrary: st) (simp_all add: stats_step_def Let_def)

lemma stats_loop_losses:
  "losses (stats_loop rs st) = losses st + int (length (filter (\<lambda>r. r_winner r = Some ''companion'') rs))"
  by (induction rs arbitrary: st) (simp_all add: stats_step_def Let_def)

lemma stats_loop_ties:
  "ties (stats_loop rs st) = ties st +
     int (length (filter (\<lambda>r. r_winner r \<noteq> Some ''user'' \<and> r_winner r \<noteq> Some ''companion'') rs))"
  by (induction rs arbitrary: st) (simp_all add: stats_step_def Let_def)

lemma stats_step_by_type:
  "map_of (games_by_type (stats_step r st)) g =
     (if g = r_game_id r
      then Some \<lparr>played = fst (type_count (games_by_type st) g) + 1,
                 type_wins = snd (type_count (games_by_type st) g) +
                    (if r_winner r = Some ''user'' then 1 else 0)\<rparr>
      else map_of (games_by_type st) g)"
  by (auto simp: stats_step_def Let_def type_count_def map_of_map_entry update_conv'
      split: option.splits)

lemma stats_loop_by_type:
  "map_of (games_by_type (stats_loop rs st)) g =
     (if g \<in> set (map r_game_id rs)
      then Some \<lparr>played = fst (type_count (games_by_type st) g) +
                    int (length (filter (\<lambda>r. r_game_id r = g) rs)),
                 type_wins = snd (type_count (games_by_type st) g) +
                    int (length (filter (\<lambda>r. r_game_id r = g \<and> r_winner r = Some ''user'') rs))\<rparr>
      else map_of (games_by_type st) g)"
proof (induction rs arbitrary: st)
  case Nil
  then show ?case by simp
next
  case (Cons r rs)
  show ?case
    by (auto simp add: Cons.IH stats_step_by_type type_count_def filter_empty_conv image_iff)
qed

lemma get_statistics_loop:
  "fst (get_statistics db c) =
     stats_loop (filter (\<lambda>r. r_companion_id r = c) (records db))
       (zero_stats\<lparr>total_games := int (length (filter (\<lambda>r. r_companion_id r = c) (records db)))\<rparr>)"
  by (simp add: get_statistics_def Let_def zero_stats_def)

lemma get_statistics_pure: "snd (get_statistics db c) = db"
  by (simp add: get_statistics_def Let_def)

lemma tie_is_counted:
  "length (filter (\<lambda>r. r_winner r = Some ''tie'') rs) \<le>
   length (filter (\<lambda>r. r_winner r \<noteq> Some ''user'' \<and> r_winner r \<noteq> Some ''companion'') rs)"
  by (induction rs) auto

text \<open>
  Claim C8. Over the records \<open>rs\<close> of the companion, in table order, \<^verbatim>\<open>get_statistics\<close>
  returns their number as \<^verbatim>\<open>total_games\<close>, the sums of their scores (a null score counts
  0), the number of records won by "user" as \<^verbatim>\<open>wins\<close>, by "companion" as \<^verbatim>\<open>losses\<close>, and
  the number of the others as \<^verbatim>\<open>ties\<close>, which covers every "tie" record. \<^verbatim>\<open>games_by_type\<close>
  has an entry exactly for the games that have a record, with the number of those records
  and the number of them won by "user". With no record the result is the all-zero
  structure, and the database is returned as it was.
\<close>

theorem get_statistics_counts:
  fixes db :: database and c :: string
  defines "rs \<equiv> filter (\<lambda>r. r_companion_id r = c) (records db)"
  defines "st \<equiv> fst (get_statistics db c)"
  shows "total_games st = int (length rs) \<and>
     total_user_score st = sum_list (map (\<lambda>r. or0 (r_user_score r)) rs) \<and>
     total_companion_score st = sum_list (map (\<lambda>r. or0 (r_companion_score r)) rs) \<and>
     wins st = int (length (filter (\<lambda>r. r_winner r = Some ''user'') rs)) \<and>
     losses st = int (length (filter (\<lambda>r. r_winner r = Some ''companion'') rs)) \<and>
     ties st = int (length (filter (\<lambda>r. r_winner r \<noteq> Some ''user'' \<and> r_winner r \<noteq> Some ''companion'') rs)) \<and>
     int (length (filter (\<lambda>r. r_winner r = Some ''tie'') rs)) \<le> ties st \<and>
     (\<forall>g. map_of (games_by_type st) g =
        (if g \<in> set (map r_game_id rs)
         then Some \<lparr>played = int (length (filter (\<lambda>r. r_game_id r = g) rs)),
                    type_wins = int (length (filter (\<lambda>r. r_game_id r = g \<and> r_winner r = Some ''user'') rs))\<rparr>
         else None)) \<and>
     (rs = [] \<longrightarrow> st = zero_stats) \<and>
     snd (get_statistics db c) = db"
proof -
  have st: "st = stats_loop rs (zero_stats\<lparr>total_games := int (length rs)\<rparr>)"
    unfolding st_def rs_def by (rule get_statistics_loop)
  have t: "ties st = int (length (filter (\<lambda>r. r_winner r \<noteq> Some ''user'' \<and> r_winner r \<noteq> Some ''companion'') rs))"
    by (simp add: st stats_loop_ties zero_stats_def)
  have by_type: "\<forall>g. map_of (games_by_type st) g =
        (if g \<in> set (map r_game_id rs)
         then Some \<lparr>played = int (length (filter (\<lambda>r. r_game_id r = g) rs)),
                    type_wins = int (length (filter (\<lambda>r. r_game_id r = g \<and> r_winner r = Some ''user'') rs))\<rparr>
         else None)"
    by (simp add: st stats_loop_by_type zero_stats_def type_count_def)
  have empty: "rs = [] \<longrightarrow> st = zero_stats"
    by (simp add: st zero_stats_def)
  have tie: "int (length (filter (\<lambda>r. r_winner r = Some ''tie'') rs)) \<le> ties st"
    unfolding t using tie_is_counted [of rs] by simp
  show ?thesis
    using t by_type empty tie
    by (simp add: st stats_loop_total_games stats_loop_user_score stats_loop_companion_score
        stats_loop_wins stats_loop_losses zero_stats_def get_statistics_pure)
qed

text \<open>
  Claim C10. Whatever records the companion has, \<^verbatim>\<open>wins + losses + ties\<close> is
  \<^verbatim>\<open>total_games\<close>: a record won by "user" is a win, one won by "companion" a loss, and
  every other record, a null winner included, is a tie.
\<close>

theorem get_statistics_partition:
  fixes db :: database and c :: string
  defines "rs \<equiv> filter (\<lambda>r. r_companion_id r = c) (records db)"
  defines "st \<equiv> fst (get_statistics db c)"
  shows "wins st + losses st + ties st = total_games st \<and>
     ties st = int (length (filter (\<lambda>r. r_winner r \<noteq> Some ''user'' \<and> r_winner r \<noteq> Some ''companion'') rs)) \<and>
     int (length (filter (\<lambda>r. r_winner r = None) rs)) \<le> ties st"
proof -
  have st: "st = stats_loop rs (zero_stats\<lparr>total_games := int (length rs)\<rparr>)"
    unfolding st_def rs_def by (rule get_statistics_loop)
  have split3: "length (filter (\<lambda>r. r_winner r = Some ''user'') xs) +
      length (filter (\<lambda>r. r_winner r = Some ''companion'') xs) +
      length (filter (\<lambda>r. r_winner r \<noteq> Some ''user'' \<and> r_winner r \<noteq> Some ''companion'') xs) =
      length xs" for xs :: "game_record list"
    by (induction xs) auto
  have nulls: "length (filter (\<lambda>r. r_winner r = None) xs) \<le>
      length (filter (\<lambda>r. r_winner r \<noteq> Some ''user'' \<and> r_winner r \<noteq> Some ''companion'') xs)"
    for xs :: "game_record list"
    by (induction xs) auto
  have w: "wins st = int (length (filter (\<lambda>r. r_winner r = Some ''user'') rs))"
    and l: "losses st = int (length (filter (\<lambda>r. r_winner r = Some ''companion'') rs))"
    and t: "ties st = int (length (filter (\<lambda>r. r_winner r \<noteq> Some ''user'' \<and> r_winner r \<noteq> Some ''companion'') rs))"
    and n: "total_games st = int (length rs)"
    by (simp_all add: st stats_loop_wins stats_loop_losses stats_loop_ties stats_loop_total_games
        zero_stats_def)
  show ?thesis
    using split3 [of rs] nulls [of rs] by (simp add: w l t n)
qed

lemma demo_records_c1:
  "filter (\<lambda>r. r_companion_id r = ''c1'') (records demo_stats_db) =
     [\<lparr>r_id = ''r1'', r_game_id = ''trivia'', r_companion_id = ''c1'', r_session_id = Some ''s2'',
        r_user_score = Some 3, r_companion_score = Some 0, r_rounds_played = Some 5,
        r_winner = Some ''user''\<rparr>,
      \<lparr>r_id = ''r2'', r_game_id = ''word_chain'', r_companion_id = ''c1'', r_session_id = Some ''s1'',
        r_user_score = Some 4, r_companion_score = Some 0, r_rounds_played = Some 4,
        r_winner = Some ''user''\<rparr>,
      \<lparr>r_id = ''r3'', r_game_id = ''trivia'', r_companion_id = ''c1'', r_session_id = Some ''s6'',
        r_user_score = Some 0, r_companion_score = Some 0, r_rounds_played = Some 0,
        r_winner = Some ''tie''\<rparr>]"
  by (simp add: demo_stats_db_def)

lemma demo_records_c2:
  "filter (\<lambda>r. r_companion_id r = ''c2'') (records demo_stats_db) =
     [\<lparr>r_id = ''r4'', r_game_id = ''trivia'', r_companion_id = ''c2'', r_session_id = Some ''s4'',
         r_user_score = Some 1, r_companion_score = Some 2, r_rounds_played = Some 5,
         r_winner = Some ''companion''\<rparr>,
       \<lparr>r_id = ''r5'', r_game_id = ''guess_number'', r_companion_id = ''c2'', r_session_id = None,
         r_user_score = None, r_companion_score = None, r_rounds_played = None,
         r_winner = None\<rparr>]"
  by (simp add: demo_stats_db_def)

lemma demo_records_nobody:
  "filter (\<lambda>r. r_companion_id r = ''nobody'') (records demo_stats_db) = []"
  by (simp add: demo_stats_db_def)

theorem get_statistics_counts_witness:
  "total_games (fst (get_statistics demo_stats_db ''c1'')) = 3 \<and>
   wins (fst (get_statistics demo_stats_db ''c1'')) = 2 \<and>
   losses (fst (get_statistics demo_stats_db ''c1'')) = 0 \<and>
   ties (fst (get_statistics demo_stats_db ''c1'')) = 1 \<and>
   total_user_score (fst (get_statistics demo_stats_db ''c1'')) = 7 \<and>
   total_companion_score (fst (get_statistics demo_stats_db ''c1'')) = 0 \<and>
   map_of (games_by_type (fst (get_statistics demo_stats_db ''c1''))) ''trivia'' =
     Some \<lparr>played = 2, type_wins = 1\<rparr> \<and>
   map_of (games_by_type (fst (get_statistics demo_stats_db ''c1''))) ''word_chain'' =
     Some \<lparr>played = 1, type_wins = 1\<rparr> \<and>
   map_of (games_by_type (fst (get_statistics demo_stats_db ''c1''))) ''guess_number'' = None \<and>
   snd (get_statistics demo_stats_db ''c1'') = demo_stats_db \<and>
   fst (get_statistics demo_stats_db ''nobody'') = zero_stats"
proof -
  note c1 = get_statistics_counts [of demo_stats_db "''c1''", unfolded demo_records_c1]
  note nobody = get_statistics_counts [of demo_stats_db "''nobody''", unfolded demo_records_nobody]
  have by_type: "map_of (games_by_type (fst (get_statistics demo_stats_db ''c1''))) g =
        (if g \<in> {''trivia'', ''word_chain''}
         then Some \<lparr>played = int (length (filter (\<lambda>r. r_game_id r = g)
                [\<lparr>r_id = ''r1'', r_game_id = ''trivia'', r_companion_id = ''c1'', r_session_id = Some ''s2'',
        r_user_score = Some 3, r_companion_score = Some 0, r_rounds_played = Some 5,
        r_winner = Some ''user''\<rparr>,
      \<lparr>r_id = ''r2'', r_game_id = ''word_chain'', r_companion_id = ''c1'', r_session_id = Some ''s1'',
        r_user_score = Some 4, r_companion_score = Some 0, r_rounds_played = Some 4,
        r_winner = Some ''user''\<rparr>,
      \<lparr>r_id = ''r3'', r_game_id = ''trivia'', r_companion_id = ''c1'', r_session_id = Some ''s6'',
        r_user_score = Some 0, r_companion_score = Some 0, r_rounds_played = Some 0,
        r_winner = Some ''tie''\<rparr>])),
                    type_wins = int (length (filter (\<lambda>r. r_game_id r = g \<and> r_winner r = Some ''user'')
                [\<lparr>r_id = ''r1'', r_game_id = ''trivia'', r_companion_id = ''c1'', r_session_id = Some ''s2'',
        r_user_score = Some 3, r_companion_score = Some 0, r_rounds_played = Some 5,
        r_winner = Some ''user''\<rparr>,
      \<lparr>r_id = ''r2'', r_game_id = ''word_chain'', r_companion_id = ''c1'', r_session_id = Some ''s1'',
        r_user_score = Some 4, r_companion_score = Some 0, r_rounds_played = Some 4,
        r_winner = Some ''user''\<rparr>,
      \<lparr>r_id = ''r3'', r_game_id = ''trivia'', r_companion_id = ''c1'', r_session_id = Some ''s6'',
        r_user_score = Some 0, r_companion_score = Some 0, r_rounds_played = Some 0,
        r_winner = Some ''tie''\<rparr>]))\<rparr>
         else None)" for g
    using c1 by auto
  have a: "total_games (fst (get_statistics demo_stats_db ''c1'')) = 3"
      "wins (fst (get_statistics demo_stats_db ''c1'')) = 2"
      "losses (fst (get_statistics demo_stats_db ''c1'')) = 0"
      "ties (fst (get_statistics demo_stats_db ''c1'')) = 1"
      "total_user_score (fst (get_statistics demo_stats_db ''c1'')) = 7"
      "total_companion_score (fst (get_statistics demo_stats_db ''c1'')) = 0"
      "snd (get_statistics demo_stats_db ''c1'') = demo_stats_db"
    using c1 by (simp_all add: or0_def)
  have b: "map_of (games_by_type (fst (get_statistics demo_stats_db ''c1''))) ''trivia'' =
       Some \<lparr>played = 2, type_wins = 1\<rparr>"
     "map_of (games_by_type (fst (get_statistics demo_stats_db ''c1''))) ''word_chain'' =
       Some \<lparr>played = 1, type_wins = 1\<rparr>"
     "map_of (games_by_type (fst (get_statistics demo_stats_db ''c1''))) ''guess_number'' = None"
    by (simp_all add: by_type)
  have z: "fst (get_statistics demo_stats_db ''nobody'') = zero_stats"
    using nobody by simp
  from a b z show ?thesis by blast
qed

theorem get_statistics_partition_witness:
  "wins (fst (get_statistics demo_stats_db ''c2'')) = 0 \<and>
   losses (fst (get_statistics demo_stats_db ''c2'')) = 1 \<and>
   ties (fst (get_statistics demo_stats_db ''c2'')) = 1 \<and>
   total_games (fst (get_statistics demo_stats_db ''c2'')) = 2 \<and>
   wins (fst (get_statistics demo_stats_db ''c2'')) + losses (fst (get_statistics demo_stats_db ''c2'')) +
     ties (fst (get_statistics demo_stats_db ''c2'')) = total_games (fst (get_statistics demo_stats_db ''c2''))"
proof -
  note c2 = get_statistics_partition [of demo_stats_db "''c2''", unfolded demo_records_c2]
  have t: "ties (fst (get_statistics demo_stats_db ''c2'')) = 1"
    using c2 by simp
  have l: "losses (fst (get_statistics demo_stats_db ''c2'')) = 1"
    by (simp add: get_statistics_loop demo_records_c2 stats_loop_losses zero_stats_def del: stats_loop.simps)
  have w: "wins (fst (get_statistics demo_stats_db ''c2'')) = 0"
    by (simp add: get_statistics_loop demo_records_c2 stats_loop_wins zero_stats_def del: stats_loop.simps)
  from c2 t l w show ?thesis by simp
qed

end
